theory Spec2Isabelle
  imports Main "HOL-Library.Multiset"
begin

section \<open>Findings and the findings log (pkg/monitors/monitors.go)\<close>

text \<open>
  An instant of the host clock (Go's \<open>time.Time\<close>). Only its identity matters here.
\<close>

type_synonym Time = nat

text \<open>The struct \<open>Attack\<close> of monitors.go, field by field.\<close>

record Attack =
  Type :: string
  Severity :: string
  Description :: string
  Target :: string
  Timestamp :: Time

text \<open>
  \<open>AddAttack\<close>: append to the global slice \<open>Attacks\<close>, then keep the last 1000 entries
  when the slice has grown beyond 1000. The global is passed in and returned.
\<close>

definition AddAttack :: "Attack list \<Rightarrow> Attack \<Rightarrow> Attack list" where
  "AddAttack Attacks attack =
     (let Attacks1 = Attacks @ [attack]
      in if length Attacks1 > 1000
         then drop (length Attacks1 - 1000) Attacks1
         else Attacks1)"

text \<open>
  \<open>GetRecentAttacks\<close>: the whole log when the limit is not positive or exceeds the
  length, otherwise the last \<open>limit\<close> entries.
\<close>

definition GetRecentAttacks :: "Attack list \<Rightarrow> int \<Rightarrow> Attack list" where
  "GetRecentAttacks Attacks limit =
     (if limit \<le> 0 \<or> limit > int (length Attacks) then Attacks
      else drop (length Attacks - nat limit) Attacks)"

section \<open>Go's \<open>strings\<close> package, on byte strings\<close>

text \<open>
  A Go string is a sequence of bytes; \<open>string\<close> here is a list of 8-bit characters.
  The functions below follow the documented behaviour of the standard library functions
  of the same names that the repository calls.
\<close>

fun HasPrefix :: "string \<Rightarrow> string \<Rightarrow> bool" where
  "HasPrefix s [] = True"
| "HasPrefix [] (p # ps) = False"
| "HasPrefix (c # cs) (p # ps) = (c = p \<and> HasPrefix cs ps)"

definition HasSuffix :: "string \<Rightarrow> string \<Rightarrow> bool" where
  "HasSuffix s suf = HasPrefix (rev s) (rev suf)"

fun Contains :: "string \<Rightarrow> string \<Rightarrow> bool" where
  "Contains [] substr = (substr = [])"
| "Contains (c # cs) substr = (HasPrefix (c # cs) substr \<or> Contains cs substr)"

definition TrimSuffix :: "string \<Rightarrow> string \<Rightarrow> string" where
  "TrimSuffix s suf =
     (if HasSuffix s suf then take (length s - length suf) s else s)"

fun Join :: "string list \<Rightarrow> string \<Rightarrow> string" where
  "Join [] sep = []"
| "Join [e] sep = e"
| "Join (e # f # es) sep = e @ sep @ Join (f # es) sep"

text \<open>
  Splitting at a separator \<open>s0 # ss\<close> (never empty), leftmost occurrences first and
  without overlap; \<open>k\<close> bounds the number of cuts still allowed and \<open>cur\<close> is the
  piece collected so far.
\<close>

fun splitOnN :: "nat \<Rightarrow> char \<Rightarrow> string \<Rightarrow> string \<Rightarrow> string \<Rightarrow> string list" where
  "splitOnN k s0 ss cur [] = [cur]"
| "splitOnN k s0 ss cur (c # cs) =
     (if 0 < k \<and> HasPrefix (c # cs) (s0 # ss)
      then cur # splitOnN (k - 1) s0 ss [] (drop (length ss) cs)
      else splitOnN k s0 ss (cur @ [c]) cs)"

text \<open>
  \<open>strings.Split(s, sep)\<close> and \<open>strings.SplitN(s, sep, n)\<close>. The repository calls them
  with non-empty literal separators only; for the empty separator Go cuts \<open>s\<close> after
  each UTF-8 sequence, which the first case gives for ASCII text.
\<close>

definition Split :: "string \<Rightarrow> string \<Rightarrow> string list" where
  "Split s sep =
     (case sep of
        [] \<Rightarrow> map (\<lambda>c. [c]) s
      | s0 # ss \<Rightarrow> splitOnN (length s) s0 ss [] s)"

definition SplitN :: "string \<Rightarrow> string \<Rightarrow> int \<Rightarrow> string list" where
  "SplitN s sep n =
     (if n = 0 then []
      else if n < 0 then Split s sep
      else (case sep of
              [] \<Rightarrow> map (\<lambda>c. [c]) (take (nat n - 1) s) @
                     (if nat n - 1 < length s then [drop (nat n - 1) s] else [])
            | s0 # ss \<Rightarrow> splitOnN (nat n - 1) s0 ss [] s))"

text \<open>
  White space as \<open>unicode.IsSpace\<close> defines it, in UTF-8: the six ASCII characters,
  U+0085, U+00A0, U+1680, U+2000 to U+200A, U+2028, U+2029, U+202F, U+205F and U+3000.
  A lead byte always starts a new rune in Go's decoder, so a white-space rune stands at
  a position exactly when one of these byte sequences does.
\<close>

definition spaceRunes :: "string list" where
  "spaceRunes =
     [[CHR 0x09], [CHR 0x0A], [CHR 0x0B], [CHR 0x0C], [CHR 0x0D], [CHR 0x20],
      [CHR 0xC2, CHR 0x85], [CHR 0xC2, CHR 0xA0], [CHR 0xE1, CHR 0x9A, CHR 0x80],
      [CHR 0xE2, CHR 0x80, CHR 0x80], [CHR 0xE2, CHR 0x80, CHR 0x81],
      [CHR 0xE2, CHR 0x80, CHR 0x82], [CHR 0xE2, CHR 0x80, CHR 0x83],
      [CHR 0xE2, CHR 0x80, CHR 0x84], [CHR 0xE2, CHR 0x80, CHR 0x85],
      [CHR 0xE2, CHR 0x80, CHR 0x86], [CHR 0xE2, CHR 0x80, CHR 0x87],
      [CHR 0xE2, CHR 0x80, CHR 0x88], [CHR 0xE2, CHR 0x80, CHR 0x89],
      [CHR 0xE2, CHR 0x80, CHR 0x8A], [CHR 0xE2, CHR 0x80, CHR 0xA8],
      [CHR 0xE2, CHR 0x80, CHR 0xA9], [CHR 0xE2, CHR 0x80, CHR 0xAF],
      [CHR 0xE2, CHR 0x81, CHR 0x9F], [CHR 0xE3, CHR 0x80, CHR 0x80]]"

text \<open>Dropping every leading occurrence of one of the byte sequences \<open>ps\<close>.\<close>

fun trimLeftRunes :: "string list \<Rightarrow> string \<Rightarrow> string" where
  "trimLeftRunes ps [] = []"
| "trimLeftRunes ps (c # cs) =
     (case find (HasPrefix (c # cs)) ps of
        None \<Rightarrow> c # cs
      | Some p \<Rightarrow> trimLeftRunes ps (drop (length p - 1) cs))"

text \<open>\<open>strings.TrimSpace\<close>: leading white space removed, then trailing white space.\<close>

definition TrimSpace :: "string \<Rightarrow> string" where
  "TrimSpace s =
     rev (trimLeftRunes (map rev spaceRunes) (rev (trimLeftRunes spaceRunes s)))"

text \<open>
  \<open>strings.Fields\<close>: the maximal runs of non-white-space bytes, in order; \<open>cur\<close> is the
  field collected so far.
\<close>

fun fieldsFrom :: "string \<Rightarrow> string \<Rightarrow> string list" where
  "fieldsFrom cur [] = (if cur = [] then [] else [cur])"
| "fieldsFrom cur (c # cs) =
     (case find (HasPrefix (c # cs)) spaceRunes of
        None \<Rightarrow> fieldsFrom (cur @ [c]) cs
      | Some p \<Rightarrow> (if cur = [] then [] else [cur]) @ fieldsFrom [] (drop (length p - 1) cs))"

definition Fields :: "string \<Rightarrow> string list" where
  "Fields s = fieldsFrom [] s"

text \<open>The decimal text of a natural number, as \<open>%d\<close> prints a non-negative int.\<close>

fun itoa :: "nat \<Rightarrow> string" where
  "itoa n =
     (if n < 10 then [''0123456789'' ! n]
      else itoa (n div 10) @ [''0123456789'' ! (n mod 10)])"

declare itoa.simps [simp del]

section \<open>The host: external commands, the search path and the clock\<close>

text \<open>
  Everything the program asks of its host goes through \<open>os/exec\<close> and \<open>time\<close>. The
  host is a state machine over states \<open>'w\<close>:
  \<^item> \<open>LookPath w name\<close> is \<open>exec.LookPath\<close>: the path of the executable, or \<open>None\<close>;
  \<^item> \<open>Exec w mode argv\<close> runs a command to completion and gives what the call
    captured, the error it returned (\<open>None\<close> for \<open>nil\<close>, else the error's text) and
    the host's next state; \<open>mode\<close> says which of \<open>Run\<close>, \<open>Output\<close> and
    \<open>CombinedOutput\<close> was called;
  \<^item> \<open>Now w\<close> is \<open>time.Now()\<close>, and \<open>Format t layout\<close> is \<open>t.Format(layout)\<close>.
  A command (\<open>*exec.Cmd\<close>) is its argument vector, program name first. No theorem
  below restricts the host, so every answer a real system can give is covered.
\<close>

datatype capture = Run | Output | CombinedOutput

record 'w host =
  LookPath :: "'w \<Rightarrow> string \<Rightarrow> string option"
  Exec :: "'w \<Rightarrow> capture \<Rightarrow> string list \<Rightarrow> (string \<times> string option) \<times> 'w"
  Now :: "'w \<Rightarrow> Time"
  Format :: "Time \<Rightarrow> string \<Rightarrow> string"

section \<open>The Tool Invoker (pkg/monitors/monitors.go)\<close>

definition sudoIndicators :: "string list" where
  "sudoIndicators =
     [''Permission denied'', ''Operation not permitted'', ''Device or resource busy'',
      ''interface not in monitor mode'', ''no such device'',
      ''rtl_power: failed to open rtl'']"

text \<open>
  The loops of the form \<open>for _, p := range patterns { if strings.Contains(s, p) { ...;
  break } }\<close>: whether the body runs, that is whether \<open>s\<close> contains one of the
  patterns.
\<close>

fun containsAny :: "string \<Rightarrow> string list \<Rightarrow> bool" where
  "containsAny s [] = False"
| "containsAny s (p # patterns) = (if Contains s p then True else containsAny s patterns)"

text \<open>
  \<open>runCommandOrSudo\<close>: the command that was run last, its combined output and its
  error. The retry runs \<open>sudoPath\<close> with the arguments \<open>sudoPath\<close> followed by the
  original argument vector.
\<close>

definition runCommandOrSudo :: "'w host \<Rightarrow> 'w \<Rightarrow> string list \<Rightarrow> string list
    \<Rightarrow> (string list \<times> string \<times> string option) \<times> 'w" where
  "runCommandOrSudo h w cmd expectedErrorPatterns =
     (case Exec h w CombinedOutput cmd of
        ((output, None), w1) \<Rightarrow> ((cmd, output, None), w1)
      | ((output, Some err), w1) \<Rightarrow>
          (if containsAny (output @ err) (sudoIndicators @ expectedErrorPatterns)
           then (case LookPath h w1 ''sudo'' of
                   Some sudoPath \<Rightarrow>
                     (case Exec h w1 CombinedOutput (sudoPath # cmd) of
                        ((sudoOutput, sudoErr), w2) \<Rightarrow>
                          ((sudoPath # cmd, sudoOutput, sudoErr), w2))
                 | None \<Rightarrow> ((cmd, output, Some err), w1))
           else ((cmd, output, Some err), w1)))"

section \<open>Samples\<close>

text \<open>
  The sample structs of monitors.go. \<open>PWR\<close> and \<open>Address\<close> name fields of two structs
  each; the second of each pair carries a suffix here. The fields of type \<open>int\<close> are
  integers: the only numbers the modelled code stores in them are 0 and results of
  \<open>strconv.Atoi\<close>, which are in the range of a 64-bit int.
\<close>

record WifiAP =
  BSSID :: string
  PWR :: int
  Beacons :: int
  ENC :: string
  ESSID :: string

record WifiClient =
  MAC :: string
  APMAC :: string
  PWR_client :: int
  Lost :: int

record BluetoothDevice =
  Address :: string
  Name :: string

record BLEDevice =
  Address_ble :: string
  Data :: string
  RSSI :: int

section \<open>Detection heuristics (pkg/monitors/monitors.go)\<close>

text \<open>
  Three things the heuristics take from the Go runtime are parameters:
  \<^item> \<open>lower\<close> is \<open>strings.ToLower\<close>, which maps runes by the Unicode tables of the Go
    release;
  \<^item> \<open>order\<close> fixes the order in which a \<open>range\<close> over a map visits the keys, which Go
    leaves unspecified: the \<open>n\<close>-th such loop of a call visits the keys by ascending
    \<open>order n\<close>. Every order of visiting distinct keys arises from some \<open>order\<close>;
  \<^item> \<open>now\<close> is the reading of \<open>time.Now()\<close> stored in the findings of the call.
\<close>

text \<open>
  \<open>ssidCounts[k] = append(ssidCounts[k], v)\<close> on a map kept as a list with one entry
  for each key.
\<close>

fun appendTo :: "string \<Rightarrow> string \<Rightarrow> (string \<times> string list) list \<Rightarrow> (string \<times> string list) list" where
  "appendTo k v [] = [(k, [v])]"
| "appendTo k v ((k', vs) # rest) =
     (if k' = k then (k', vs @ [v]) # rest else (k', vs) # appendTo k v rest)"

fun ssidCounts :: "WifiAP list \<Rightarrow> (string \<times> string list) list \<Rightarrow> (string \<times> string list) list" where
  "ssidCounts [] m = m"
| "ssidCounts (device # devices) m =
     ssidCounts devices
       (if ESSID device \<noteq> [] \<and> ESSID device \<noteq> ''Hidden''
        then appendTo (ESSID device) (BSSID device) m
        else m)"

definition evilTwin :: "Time \<Rightarrow> string \<times> string list \<Rightarrow> Attack list" where
  "evilTwin now entry =
     (case entry of (ssid, bssids) \<Rightarrow>
        if length bssids > 1
        then [\<lparr>Type = ''EVIL_TWIN'', Severity = ''High'',
               Description = ''Potential evil twin attack: SSID '' @ [CHR 0x27] @ ssid @
                 [CHR 0x27] @ '' appears '' @ itoa (length bssids) @ '' times'',
               Target = ssid, Timestamp = now\<rparr>]
        else [])"

definition roguePatterns :: "string list" where
  "roguePatterns =
     [''free'', ''public'', ''hack'', ''test'', ''evil'', ''wifi'', ''guest'', ''default'']"

definition rogueAP :: "(string \<Rightarrow> string) \<Rightarrow> Time \<Rightarrow> WifiAP \<Rightarrow> Attack list" where
  "rogueAP lower now device =
     (if containsAny (lower (ESSID device)) roguePatterns
      then [\<lparr>Type = ''ROGUE_AP'', Severity = ''High'',
             Description = ''Potentially rogue access point detected: '' @ ESSID device,
             Target = ESSID device, Timestamp = now\<rparr>]
      else [])"

definition weakEncryption :: "(string \<Rightarrow> string) \<Rightarrow> Time \<Rightarrow> WifiAP \<Rightarrow> Attack list" where
  "weakEncryption lower now device =
     (if Contains (lower (ENC device)) ''wep''
      then [\<lparr>Type = ''WEAK_ENCRYPTION'', Severity = ''High'',
             Description = ''Weak encryption (WEP) detected on network: '' @ ESSID device,
             Target = ESSID device, Timestamp = now\<rparr>]
      else [])"

text \<open>
  \<open>DetectWiFiAttacks\<close>: the evil-twin findings in the order of the range over
  \<open>ssidCounts\<close>, then the rogue access points, then the weak encryptions, both in the
  order of the sample.
\<close>

definition DetectWiFiAttacks :: "(string \<Rightarrow> string) \<Rightarrow> (nat \<Rightarrow> string \<Rightarrow> nat) \<Rightarrow> Time \<Rightarrow> WifiAP list
    \<Rightarrow> Attack list" where
  "DetectWiFiAttacks lower order now devices =
     concat (map (evilTwin now) (sort_key (\<lambda>entry. order 0 (fst entry)) (ssidCounts devices []))) @
     concat (map (rogueAP lower now) devices) @
     concat (map (weakEncryption lower now) devices)"

definition suspiciousNames :: "string list" where
  "suspiciousNames =
     [''attack'', ''hack'', ''exploit'', ''test'', ''spoof'', ''evil'', ''malware'', ''virus'']"

definition mitmPatterns :: "(string \<times> string) list" where
  "mitmPatterns =
     [(''proxy'', ''proxy''), (''gateway'', ''gateway''), (''bridge'', ''bridge''),
      (''intercept'', ''intercept'')]"

definition massScanning :: "Time \<Rightarrow> BluetoothDevice list \<Rightarrow> Attack list" where
  "massScanning now devices =
     (if length devices > 20
      then [\<lparr>Type = ''BLUETOOTH_MASS_SCANNING'', Severity = ''Medium'',
             Description = ''Mass scanning detected: '' @ itoa (length devices) @
               '' Bluetooth devices found (unusual activity)'',
             Target = ''bluetooth_network'', Timestamp = now\<rparr>]
      else [])"

definition spoofing :: "(string \<Rightarrow> string) \<Rightarrow> Time \<Rightarrow> BluetoothDevice \<Rightarrow> Attack list" where
  "spoofing lower now device =
     (if containsAny (lower (Name device)) suspiciousNames
      then [\<lparr>Type = ''BLUETOOTH_SPOOFING'', Severity = ''High'',
             Description = ''Suspicious Bluetooth device name: '' @ Name device @ '' ('' @
               Address device @ '')'',
             Target = Address device, Timestamp = now\<rparr>]
      else [])"

text \<open>
  The inner loop of the MITM detection ranges over the map \<open>mitmPatterns\<close> and stops at
  the first pattern, in the order of that visit, that the lowered name contains.
\<close>

definition mitm :: "(string \<Rightarrow> string) \<Rightarrow> (string \<Rightarrow> nat) \<Rightarrow> Time \<Rightarrow> BluetoothDevice \<Rightarrow> Attack list" where
  "mitm lower rank now device =
     (case find (\<lambda>entry. Contains (lower (Name device)) (fst entry))
             (sort_key (\<lambda>entry. rank (fst entry)) mitmPatterns) of
        None \<Rightarrow> []
      | Some (pattern, desc) \<Rightarrow>
          [\<lparr>Type = ''BLUETOOTH_MITM'', Severity = ''High'',
            Description = ''Potential Man-in-the-Middle device: '' @ Name device @ '' ('' @
              Address device @ '') - appears to be '' @ desc,
            Target = Address device, Timestamp = now\<rparr>])"

definition DetectBluetoothAttacks :: "(string \<Rightarrow> string) \<Rightarrow> (nat \<Rightarrow> string \<Rightarrow> nat) \<Rightarrow> Time
    \<Rightarrow> BluetoothDevice list \<Rightarrow> Attack list" where
  "DetectBluetoothAttacks lower order now devices =
     massScanning now devices @
     concat (map (spoofing lower now) devices) @
     concat (map (\<lambda>(i, device). mitm lower (order i) now device) (enumerate 0 devices))"

definition dangerousPorts :: "(string \<times> string) list" where
  "dangerousPorts =
     [(''21/tcp'', ''FTP''), (''23/tcp'', ''Telnet''), (''3389/tcp'', ''RDP''),
      (''445/tcp'', ''SMB'')]"

definition suspiciousPort :: "Time \<Rightarrow> string \<Rightarrow> string \<times> string \<Rightarrow> Attack list" where
  "suspiciousPort now outputStr entry =
     (case entry of (port, service) \<Rightarrow>
        if Contains outputStr port \<and> Contains outputStr ''open''
        then [\<lparr>Type = ''SUSPICIOUS_PORT'', Severity = ''Medium'',
               Description = ''Suspicious open port detected: '' @ port @ '' ('' @ service @
                 '')'',
               Target = ''network'', Timestamp = now\<rparr>]
        else [])"

text \<open>
  \<open>DetectNetworkAttacks\<close> takes no sample: it looks for nmap on the host and, when it
  is there, runs it and reads its combined output.
\<close>

definition DetectNetworkAttacks :: "'w host \<Rightarrow> 'w \<Rightarrow> (nat \<Rightarrow> string \<Rightarrow> nat) \<Rightarrow> Attack list \<times> 'w" where
  "DetectNetworkAttacks h w order =
     (case LookPath h w ''nmap'' of
        None \<Rightarrow> ([], w)
      | Some path \<Rightarrow>
          (case Exec h w CombinedOutput
                  [''nmap'', ''-p'', ''21,23,3389,445'', ''--open'', ''192.168.1.0/24''] of
             ((output, Some e), w1) \<Rightarrow> ([], w1)
           | ((output, None), w1) \<Rightarrow>
               (concat (map (suspiciousPort (Now h w1) output)
                          (sort_key (\<lambda>entry. order 0 (fst entry)) dangerousPorts)),
                w1)))"

section \<open>The observation store (pkg/monitors/monitors.go)\<close>

text \<open>
  \<open>NetworkInfo\<close>, \<open>ServiceStatus\<close> and \<open>InterfaceInfo\<close>. The field \<open>Name\<close> of the last
  two carries a suffix, since \<open>BluetoothDevice\<close> has a field of that name.
\<close>

record NetworkInfo =
  Online :: bool
  AvgLatency :: string

record ServiceStatus =
  Name_service :: string
  Status :: string
  LastUpdate :: string
  ErrorMsg :: string
  LogEntries :: "string list"

record InterfaceInfo =
  Name_iface :: string
  Mode :: string

text \<open>
  The package-level variables that the modelled samplers read and write. A nil map and
  an empty map read alike; every write to \<open>ServiceStatuses\<close> comes after the
  \<open>make\<close>.
\<close>

record globals =
  WifiAPs :: "WifiAP list"
  WifiClients :: "WifiClient list"
  BtDevices :: "BluetoothDevice list"
  BleDevices :: "BLEDevice list"
  NetworkInfoVar :: NetworkInfo
  ServiceStatuses :: "string \<rightharpoonup> ServiceStatus"
  Attacks :: "Attack list"

text \<open>
  Run-time panics of the samplers: an index out of range (index and length), and the
  dereference of a nil \<open>*ServiceStatus\<close>.
\<close>

datatype panic = IndexOutOfRange nat nat | NilPointerDereference

text \<open>
  The prologue of every sampler: create the status record of the domain when the map
  has none.
\<close>

definition initStatus :: "'w host \<Rightarrow> 'w \<Rightarrow> string \<Rightarrow> string \<Rightarrow> globals \<Rightarrow> globals" where
  "initStatus h w key name g =
     (case ServiceStatuses g key of
        Some st \<Rightarrow> g
      | None \<Rightarrow>
          g\<lparr>ServiceStatuses := (ServiceStatuses g)(key \<mapsto>
              \<lparr>Name_service = name, Status = ''running'',
               LastUpdate = Format h (Now h w) ''2006-01-02 15:04:05'',
               ErrorMsg = [], LogEntries = []\<rparr>)\<rparr>)"

text \<open>
  A critical section under \<open>StatusMu\<close> that assigns fields of \<open>ServiceStatuses[key]\<close>:
  \<open>f\<close> is the effect of the assignments on the record.
\<close>

definition updateStatus :: "string \<Rightarrow> (ServiceStatus \<Rightarrow> ServiceStatus) \<Rightarrow> globals \<Rightarrow> panic + globals" where
  "updateStatus key f g =
     (case ServiceStatuses g key of
        None \<Rightarrow> Inl NilPointerDereference
      | Some st \<Rightarrow> Inr (g\<lparr>ServiceStatuses := (ServiceStatuses g)(key \<mapsto> f st)\<rparr>))"

text \<open>
  The assignments themselves. \<open>setStatus\<close> sets the status, the error message and the
  time of the last update; \<open>appendLog\<close> appends an entry stamped with the time of day;
  \<open>trimLog\<close> is \<open>if len(LogEntries) > 10 { LogEntries = LogEntries[len(LogEntries)-10:] }\<close>.
\<close>

definition setStatus :: "'w host \<Rightarrow> 'w \<Rightarrow> string \<Rightarrow> string \<Rightarrow> ServiceStatus \<Rightarrow> ServiceStatus" where
  "setStatus h w status msg st =
     st\<lparr>Status := status, ErrorMsg := msg,
        LastUpdate := Format h (Now h w) ''2006-01-02 15:04:05''\<rparr>"

definition appendLog :: "'w host \<Rightarrow> 'w \<Rightarrow> string \<Rightarrow> ServiceStatus \<Rightarrow> ServiceStatus" where
  "appendLog h w text st =
     st\<lparr>LogEntries := LogEntries st @
          [''['' @ Format h (Now h w) ''15:04:05'' @ ''] '' @ text]\<rparr>"

definition trimLog :: "ServiceStatus \<Rightarrow> ServiceStatus" where
  "trimLog st =
     (if length (LogEntries st) > 10
      then st\<lparr>LogEntries := drop (length (LogEntries st) - 10) (LogEntries st)\<rparr>
      else st)"

section \<open>The network sampler\<close>

text \<open>
  The loop over the lines of the ping output: at the first line that contains the
  marker, \<open>rttMin\<close> becomes the trimmed element 1 of \<open>strings.SplitN(line, "=", 2)\<close> and
  the loop ends. Indexing element 1 of a slice of length 1 panics. Without a marker line
  \<open>rttMin\<close> stays empty.
\<close>

fun rttMin :: "string list \<Rightarrow> panic + string" where
  "rttMin [] = Inr []"
| "rttMin (line # lines) =
     (if Contains line ''rtt min/avg/max/mdev''
      then (case SplitN line ''='' 2 of
              [] \<Rightarrow> Inl (IndexOutOfRange 1 0)
            | [before] \<Rightarrow> Inl (IndexOutOfRange 1 1)
            | before # after # rest \<Rightarrow> Inr (TrimSpace after))
      else rttMin lines)"

definition rttAvg :: "string \<Rightarrow> string" where
  "rttAvg rttMinStr =
     (case Split rttMinStr ''/'' of
        p0 # p1 # rest \<Rightarrow> p1 @ ''ms''
      | _ \<Rightarrow> ''Unknown'')"

definition MonitorNetwork :: "'w host \<Rightarrow> 'w \<Rightarrow> globals \<Rightarrow> panic + globals \<times> 'w" where
  "MonitorNetwork h w g0 =
     (let g = initStatus h w ''network'' ''Network Monitoring'' g0
      in case Exec h w Output [''ping'', ''-c'', ''3'', ''-i'', ''0.2'', ''8.8.8.8''] of
           ((output, Some e), w1) \<Rightarrow>
             (case updateStatus ''network''
                     (trimLog \<circ> appendLog h w1 ''Network offline'' \<circ>
                      setStatus h w1 ''error'' ''Network is offline'') g of
                Inl p \<Rightarrow> Inl p
              | Inr g1 \<Rightarrow>
                  Inr (g1\<lparr>NetworkInfoVar := \<lparr>Online = False, AvgLatency = ''N/A''\<rparr>\<rparr>, w1))
         | ((output, None), w1) \<Rightarrow>
             (case rttMin (Split output [CHR 0x0A]) of
                Inl p \<Rightarrow> Inl p
              | Inr m \<Rightarrow>
                  (case updateStatus ''network''
                          (trimLog \<circ> appendLog h w1 (''Online, latency: '' @ rttAvg m) \<circ>
                           setStatus h w1 ''running'' []) g of
                     Inl p \<Rightarrow> Inl p
                   | Inr g1 \<Rightarrow>
                       Inr (g1\<lparr>NetworkInfoVar :=
                                 \<lparr>Online = True, AvgLatency = rttAvg m\<rparr>\<rparr>, w1))))"

section \<open>The Wi-Fi sampler\<close>

text \<open>
  \<open>parseIwconfigOutput\<close>: one \<open>InterfaceInfo\<close> for each line that, trimmed, contains
  \<open>IEEE\<close> and has a field. \<open>strings.Split\<close> at a non-empty separator never returns an
  empty slice, so element 0 of the inner split exists.
\<close>

definition iwconfigMode :: "string \<Rightarrow> string" where
  "iwconfigMode line =
     (if Contains line ''Mode:''
      then (case Split line ''Mode:'' of
              m0 # m1 # rest \<Rightarrow>
                (case Split m1 '' '' of
                   first # others \<Rightarrow> TrimSpace first
                 | [] \<Rightarrow> ''Managed'')
            | _ \<Rightarrow> ''Managed'')
      else ''Managed'')"

definition iwconfigLine :: "string \<Rightarrow> InterfaceInfo list" where
  "iwconfigLine l =
     (let line = TrimSpace l
      in if Contains line ''IEEE''
         then (case Fields line of
                 [] \<Rightarrow> []
               | p0 # ps \<Rightarrow> [\<lparr>Name_iface = TrimSuffix p0 '':'', Mode = iwconfigMode line\<rparr>])
         else [])"

definition parseIwconfigOutput :: "string \<Rightarrow> InterfaceInfo list" where
  "parseIwconfigOutput output = concat (map iwconfigLine (Split output [CHR 0x0A]))"

text \<open>
  \<open>getWifiInterfaces\<close>. The names come from /proc/net/wireless (every line but the
  first) or, when that cannot be read, from the iwconfig lines that contain \<open>IEEE\<close>; the
  last loop keeps the first occurrence of each name that starts with \<open>wlan\<close>.
\<close>

definition procWirelessLine :: "string \<Rightarrow> string list" where
  "procWirelessLine line =
     (case Fields line of
        [] \<Rightarrow> []
      | p0 # ps \<Rightarrow>
          (let ifaceName = TrimSuffix (TrimSpace p0) '':''
           in if ifaceName \<noteq> [] then [ifaceName] else []))"

definition iwconfigNameLine :: "string \<Rightarrow> string list" where
  "iwconfigNameLine l =
     (let line = TrimSpace l
      in if Contains line ''IEEE''
         then (case Fields line of [] \<Rightarrow> [] | p0 # ps \<Rightarrow> [TrimSuffix p0 '':''])
         else [])"

fun uniqueInterfaces :: "string list \<Rightarrow> string list \<Rightarrow> string list" where
  "uniqueInterfaces [] seen = []"
| "uniqueInterfaces (iface # rest) seen =
     (if iface \<notin> set seen \<and> HasPrefix iface ''wlan''
      then iface # uniqueInterfaces rest (iface # seen)
      else uniqueInterfaces rest seen)"

definition getWifiInterfaces :: "'w host \<Rightarrow> 'w \<Rightarrow> (string + string list) \<times> 'w" where
  "getWifiInterfaces h w =
     (case Exec h w Output [''cat'', ''/proc/net/wireless''] of
        ((output, Some e), w1) \<Rightarrow>
          (case Exec h w1 Output [''iwconfig''] of
             ((output2, Some e2), w2) \<Rightarrow> (Inl e2, w2)
           | ((output2, None), w2) \<Rightarrow>
               (Inr (uniqueInterfaces
                       (concat (map iwconfigNameLine (Split output2 [CHR 0x0A]))) []), w2))
      | ((output, None), w1) \<Rightarrow>
          (Inr (uniqueInterfaces
                  (concat (map procWirelessLine (drop 1 (Split output [CHR 0x0A])))) []), w1))"

text \<open>
  \<open>getOrCreateMonitorInterface\<close>: an interface already in monitor mode, else the first
  Wi-Fi interface after it has been switched to monitor mode. The results of taking the
  interface down and up are only logged.
\<close>

definition createMonitorInterface :: "'w host \<Rightarrow> 'w \<Rightarrow> (string + string) \<times> 'w" where
  "createMonitorInterface h w =
     (case getWifiInterfaces h w of
        (Inl e, w1) \<Rightarrow> (Inl ''no WiFi interfaces found'', w1)
      | (Inr [], w1) \<Rightarrow> (Inl ''no WiFi interfaces found'', w1)
      | (Inr (targetInterface # others), w1) \<Rightarrow>
          (case Exec h w1 Run [''ifconfig'', targetInterface, ''down''] of
             (down, w2) \<Rightarrow>
               (case Exec h w2 Run [''iwconfig'', targetInterface, ''mode'', ''monitor''] of
                  ((out, Some e), w3) \<Rightarrow>
                    (Inl (''failed to set monitor mode on '' @ targetInterface @ '': '' @ e), w3)
                | ((out, None), w3) \<Rightarrow>
                    (case Exec h w3 Run [''ifconfig'', targetInterface, ''up''] of
                       (up, w4) \<Rightarrow> (Inr targetInterface, w4)))))"

definition getOrCreateMonitorInterface :: "'w host \<Rightarrow> 'w \<Rightarrow> (string + string) \<times> 'w" where
  "getOrCreateMonitorInterface h w =
     (case Exec h w Output [''iwconfig''] of
        ((output, Some e), w1) \<Rightarrow> createMonitorInterface h w1
      | ((output, None), w1) \<Rightarrow>
          (case find (\<lambda>iface. Mode iface = ''Monitor'') (parseIwconfigOutput output) of
             Some iface \<Rightarrow> (Inr (Name_iface iface), w1)
           | None \<Rightarrow> createMonitorInterface h w1))"

text \<open>
  \<open>strconv.Atoi\<close> where \<open>int\<close> has 64 bits, as the caller uses it (the error is dropped).
  After an optional sign the bytes are read from the left into an unsigned 64-bit number
  (\<open>strconv.ParseUint\<close>): a byte that is no decimal digit ends the scan with a syntax
  error, and the value is 0; a digit that would take the number beyond \<open>2^64 - 1\<close> ends
  the scan with a range error and that maximum, whatever follows it. The number then
  gets its sign and is clamped to the range of int64. An empty string, or a sign alone,
  gives 0.
\<close>

fun parseDigits :: "string \<Rightarrow> nat \<Rightarrow> nat option" where
  "parseDigits [] acc = Some acc"
| "parseDigits (c # cs) acc =
     (case map_of (zip ''0123456789'' [0, 1, 2, 3, 4, 5, 6, 7, 8, 9]) c of
        None \<Rightarrow> None
      | Some d \<Rightarrow>
          if acc \<ge> (2 ^ 64 - 1) div 10 + 1 \<or> acc * 10 + d > 2 ^ 64 - 1
          then Some (2 ^ 64 - 1)
          else parseDigits cs (acc * 10 + d))"

definition Atoi :: "string \<Rightarrow> int" where
  "Atoi s =
     (case s of
        [] \<Rightarrow> 0
      | c # cs \<Rightarrow>
          (let digits = (if c = CHR ''-'' \<or> c = CHR ''+'' then cs else s)
           in if digits = [] then 0
              else (case parseDigits digits 0 of
                      None \<Rightarrow> 0
                    | Some n \<Rightarrow>
                        if c = CHR ''-'' then max (- int n) (- (2 ^ 63))
                        else min (int n) (2 ^ 63 - 1))))"

text \<open>
  The parsing loop of \<open>fallbackScanWifi\<close>, with its four variables. A line that
  contains \<open>BSS\<close> and a space first saves the access point collected so far.
\<close>

definition savedAP :: "string \<Rightarrow> string \<Rightarrow> int \<Rightarrow> WifiAP list" where
  "savedAP currentBSSID currentSSID currentPWR =
     (if currentBSSID \<noteq> []
      then [\<lparr>BSSID = currentBSSID, PWR = currentPWR, Beacons = 0, ENC = ''WPA2'',
             ESSID = currentSSID\<rparr>]
      else [])"

fun iwScan :: "string list \<Rightarrow> WifiAP list \<Rightarrow> string \<Rightarrow> string \<Rightarrow> int \<Rightarrow> WifiAP list" where
  "iwScan [] aps currentBSSID currentSSID currentPWR =
     aps @ savedAP currentBSSID currentSSID currentPWR"
| "iwScan (l # lines) aps currentBSSID currentSSID currentPWR =
     (let line = TrimSpace l
      in if Contains line ''BSS ''
         then (case Fields line of
                 p0 # p1 # ps \<Rightarrow>
                   iwScan lines (aps @ savedAP currentBSSID currentSSID currentPWR)
                     (TrimSpace p1) [] 0
               | _ \<Rightarrow>
                   iwScan lines (aps @ savedAP currentBSSID currentSSID currentPWR)
                     currentBSSID currentSSID currentPWR)
         else if Contains line ''signal: ''
         then (case Split line ''signal: '' of
                 s0 # s1 # ss \<Rightarrow>
                   iwScan lines aps currentBSSID currentSSID
                     (Atoi (let signalStr = TrimSpace s1
                            in if HasSuffix signalStr '' dBm''
                               then TrimSuffix signalStr '' dBm'' else signalStr))
               | _ \<Rightarrow> iwScan lines aps currentBSSID currentSSID currentPWR)
         else if Contains line ''SSID: ''
         then (case Split line ''SSID: '' of
                 s0 # s1 # ss \<Rightarrow> iwScan lines aps currentBSSID (TrimSpace s1) currentPWR
               | _ \<Rightarrow> iwScan lines aps currentBSSID currentSSID currentPWR)
         else iwScan lines aps currentBSSID currentSSID currentPWR)"

text \<open>
  \<open>fallbackScanWifi\<close>. The new access points are built in a local slice and assigned
  to \<open>WifiAPs\<close>, together with the empty \<open>WifiClients\<close>, in one critical section under
  \<open>WifiMu\<close>. Without an interface the status is set with no log entry.
\<close>

definition fallbackScanWifi :: "'w host \<Rightarrow> 'w \<Rightarrow> globals \<Rightarrow> panic + globals \<times> 'w" where
  "fallbackScanWifi h w g =
     (case getWifiInterfaces h w of
        (Inr (iface # others), w1) \<Rightarrow>
          (case Exec h w1 CombinedOutput [''timeout'', ''8'', ''iw'', ''dev'', iface, ''scan''] of
             ((output, Some e), w2) \<Rightarrow>
               (case updateStatus ''wifi''
                       (trimLog \<circ> appendLog h w2 ''Fallback scan failed'' \<circ>
                        setStatus h w2 ''error'' (''iw scan failed: '' @ e)) g of
                  Inl p \<Rightarrow> Inl p
                | Inr g1 \<Rightarrow> Inr (g1, w2))
           | ((output, None), w2) \<Rightarrow>
               (let aps = iwScan (Split output [CHR 0x0A]) [] [] [] 0
                in case updateStatus ''wifi''
                          (trimLog \<circ>
                           appendLog h w2 (''Fallback scan found '' @ itoa (length aps) @
                                           '' access points'') \<circ>
                           setStatus h w2 ''running'' [])
                          (g\<lparr>WifiAPs := aps, WifiClients := []\<rparr>) of
                     Inl p \<Rightarrow> Inl p
                   | Inr g1 \<Rightarrow> Inr (g1, w2)))
      | (noInterface, w1) \<Rightarrow>
          (case updateStatus ''wifi'' (setStatus h w1 ''error'' ''No wireless interfaces found'')
                  g of
             Inl p \<Rightarrow> Inl p
           | Inr g1 \<Rightarrow> Inr (g1, w1)))"

text \<open>
  \<open>MonitorWifi\<close>. Its three critical sections append to \<open>LogEntries\<close> and do not trim.
  The call of \<open>logToFile\<close> writes a line to a file under the working directory and
  touches none of the variables; it is left out.
\<close>

definition MonitorWifi :: "'w host \<Rightarrow> 'w \<Rightarrow> globals \<Rightarrow> panic + globals \<times> 'w" where
  "MonitorWifi h w g0 =
     (let g = initStatus h w ''wifi'' ''WiFi Monitoring'' g0
      in case LookPath h w ''airodump-ng'' of
           None \<Rightarrow>
             (case updateStatus ''wifi''
                     (appendLog h w ''airodump-ng not found'' \<circ>
                      setStatus h w ''error'' ''airodump-ng not installed'') g of
                Inl p \<Rightarrow> Inl p
              | Inr g1 \<Rightarrow> Inr (g1, w))
         | Some path \<Rightarrow>
             (case getOrCreateMonitorInterface h w of
                (Inl err, w1) \<Rightarrow>
                  (case updateStatus ''wifi''
                          (appendLog h w1 (''ERROR: '' @ err) \<circ>
                           setStatus h w1 ''error''
                             (''Error setting up monitor interface: '' @ err)) g of
                     Inl p \<Rightarrow> Inl p
                   | Inr g1 \<Rightarrow> fallbackScanWifi h w1 g1)
              | (Inr monitorInterface, w1) \<Rightarrow>
                  (case updateStatus ''wifi''
                          (appendLog h w1 (''Using WiFi interface: '' @ monitorInterface) \<circ>
                           setStatus h w1 ''running'' []) g of
                     Inl p \<Rightarrow> Inl p
                   | Inr g1 \<Rightarrow> fallbackScanWifi h w1 g1)))"

section \<open>The Bluetooth and BLE samplers\<close>

text \<open>
  The body of the line loop of \<open>MonitorBluetooth\<close>: the devices that one line of tool
  output appends to \<open>BtDevices\<close>. The two formats are tested by two separate \<open>if\<close>
  statements, so a line may append twice.
\<close>

definition btLineDevices :: "string \<Rightarrow> BluetoothDevice list" where
  "btLineDevices line =
     (let trimmed = TrimSpace line
      in (if Contains trimmed [CHR 0x09] \<and> \<not> HasPrefix trimmed ''Scanning''
          then (case Fields trimmed of
                  p0 # p1 # ps \<Rightarrow> [\<lparr>Address = p0, Name = Join (p1 # ps) '' ''\<rparr>]
                | _ \<Rightarrow> [])
          else []) @
         (if HasPrefix trimmed ''Device '' \<and> Contains trimmed '' ''
          then (case Fields trimmed of
                  p0 # p1 # p2 # ps \<Rightarrow> [\<lparr>Address = p1, Name = Join (p2 # ps) '' ''\<rparr>]
                | _ \<Rightarrow> [])
          else []))"

text \<open>
  The successive values of a slice that starts as \<open>cur\<close> and has the elements appended
  one at a time.
\<close>

fun appendEach :: "'a list \<Rightarrow> 'a list \<Rightarrow> 'a list list" where
  "appendEach cur [] = []"
| "appendEach cur (d # ds) = (cur @ [d]) # appendEach (cur @ [d]) ds"

text \<open>
  Lines 315 to 352 of \<open>MonitorBluetooth\<close>: the value of \<open>BtDevices\<close> at each
  \<open>BtMu.Unlock()\<close>, in order. The first critical section assigns the empty slice; each
  later one appends one device. Between two of them the lock is free, so a reader that
  takes the read lock sees \<open>BtDevices\<close> as the last section before it left it.
\<close>

definition BtDevices_sections :: "string \<Rightarrow> BluetoothDevice list list" where
  "BtDevices_sections output =
     [] # appendEach [] (concat (map btLineDevices (Split output [CHR 0x0A])))"

text \<open>The cascade of the three scanning tools, each through \<open>runCommandOrSudo\<close>.\<close>

definition btScan :: "'w host \<Rightarrow> 'w \<Rightarrow> (string \<times> string option) \<times> 'w" where
  "btScan h w =
     (case runCommandOrSudo h w [''timeout'', ''10'', ''hcitool'', ''scan'']
             [''Operation not permitted'', ''Permission denied''] of
        ((cmd, output, None), w1) \<Rightarrow> ((output, None), w1)
      | ((cmd, output, Some e), w1) \<Rightarrow>
          (case runCommandOrSudo h w1 [''timeout'', ''10'', ''btmgmt'', ''find'']
                  [''Operation not permitted'', ''Permission denied''] of
             ((cmd2, output2, None), w2) \<Rightarrow> ((output2, None), w2)
           | ((cmd2, output2, Some e2), w2) \<Rightarrow>
               (case runCommandOrSudo h w2 [''timeout'', ''10'', ''bluetoothctl'', ''devices'']
                       [''No default controller available''] of
                  ((cmd3, output3, err3), w3) \<Rightarrow> ((output3, err3), w3))))"

definition MonitorBluetooth :: "'w host \<Rightarrow> 'w \<Rightarrow> (string \<Rightarrow> string) \<Rightarrow> (nat \<Rightarrow> string \<Rightarrow> nat) \<Rightarrow> globals
    \<Rightarrow> panic + globals \<times> 'w" where
  "MonitorBluetooth h w lower order g0 =
     (let g = initStatus h w ''bluetooth'' ''Bluetooth Monitoring'' g0
      in case btScan h w of
           ((output, Some e), w1) \<Rightarrow>
             (case updateStatus ''bluetooth''
                     (trimLog \<circ>
                      appendLog h w1 ''ERROR: All Bluetooth scanning methods failed'' \<circ>
                      setStatus h w1 ''error''
                        (''All Bluetooth scanning methods failed: '' @ e)) g of
                Inl p \<Rightarrow> Inl p
              | Inr g1 \<Rightarrow> Inr (g1, w1))
         | ((output, None), w1) \<Rightarrow>
             (let g1 = g\<lparr>BtDevices := last (BtDevices_sections output)\<rparr>
              in case updateStatus ''bluetooth''
                        (trimLog \<circ>
                         appendLog h w1 (''Monitored '' @ itoa (length (BtDevices g1)) @
                                         '' Bluetooth devices'') \<circ>
                         setStatus h w1 ''running'' []) g1 of
                   Inl p \<Rightarrow> Inl p
                 | Inr g2 \<Rightarrow>
                     Inr (g2\<lparr>Attacks :=
                               foldl AddAttack (Attacks g2)
                                 (DetectBluetoothAttacks lower order (Now h w1)
                                    (BtDevices g2))\<rparr>,
                          w1)))"

text \<open>
  Lines 444 to 471 of \<open>MonitorAirTag\<close>, in the same way: the devices one line appends
  to \<open>BleDevices\<close>, and the value of \<open>BleDevices\<close> at each \<open>BleMu.Unlock()\<close>.
\<close>

definition bleLineDevices :: "string \<Rightarrow> BLEDevice list" where
  "bleLineDevices line =
     (let trimmed = TrimSpace line
      in if Contains trimmed '':'' \<and> \<not> HasPrefix trimmed ''LE Scan'' \<and> trimmed \<noteq> []
         then (case Split trimmed '' '' of
                 p0 # p1 # ps \<Rightarrow>
                   (if Contains p0 '':'' \<and> HasSuffix p0 '':''
                    then (let data = Join (p1 # ps) '' ''
                          in [\<lparr>Address_ble = p0,
                               Data = data @
                                 (if Contains data ''Apple'' \<or> Contains data ''004C''
                                  then '' (Potential AirTag)'' else []),
                               RSSI = 0\<rparr>])
                    else [])
               | _ \<Rightarrow> [])
         else [])"

definition BleDevices_sections :: "string \<Rightarrow> BLEDevice list list" where
  "BleDevices_sections output =
     [] # appendEach [] (concat (map bleLineDevices (Split output [CHR 0x0A])))"

section \<open>The heuristics as calls in a state of the program\<close>

text \<open>
  \<open>DetectWiFiAttacks\<close> and \<open>DetectBluetoothAttacks\<close> in the form of the samplers: a call
  in a state of the host and of the package variables gives the findings, the package
  variables after the call and the state of the host after it. The two bodies (lines 901
  to 956 and 959 to 1016) name no package variable and start no command, so both states
  are the ones before the call; what they take from the host is the reading of the clock
  for the timestamps. \<open>DetectNetworkAttacks\<close> above already has this form, its result
  naming the state of the host after the scan.
\<close>

definition DetectWiFiAttacks_call :: "'w host \<Rightarrow> 'w \<Rightarrow> globals \<Rightarrow> (string \<Rightarrow> string)
    \<Rightarrow> (nat \<Rightarrow> string \<Rightarrow> nat) \<Rightarrow> WifiAP list \<Rightarrow> Attack list \<times> globals \<times> 'w" where
  "DetectWiFiAttacks_call h w g lower order devices =
     (DetectWiFiAttacks lower order (Now h w) devices, g, w)"

definition DetectBluetoothAttacks_call :: "'w host \<Rightarrow> 'w \<Rightarrow> globals \<Rightarrow> (string \<Rightarrow> string)
    \<Rightarrow> (nat \<Rightarrow> string \<Rightarrow> nat) \<Rightarrow> BluetoothDevice list \<Rightarrow> Attack list \<times> globals \<times> 'w" where
  "DetectBluetoothAttacks_call h w g lower order devices =
     (DetectBluetoothAttacks lower order (Now h w) devices, g, w)"

text \<open>Findings with their timestamps blanked, to compare two runs up to timestamps.\<close>

definition untimed :: "Attack list \<Rightarrow> Attack list" where
  "untimed fs = map (\<lambda>a. a\<lparr>Timestamp := 0\<rparr>) fs"

section \<open>The Blocker (package detector)\<close>

text \<open>
  Errors returned by the Blocker, classified as the design's error taxonomy does; each
  carries the message the code builds with \<open>fmt.Errorf\<close> (or the tool's own error).
\<close>

datatype error =
    StateConflict string
  | ToolUnavailable string
  | ToolExecutionFailed string
  | NotImplemented string

text \<open>What the Blocker hands to its logger, in order.\<close>

datatype log_entry = LogInfo string | LogError string string

text \<open>
  The struct \<open>Blocker\<close>. The three maps go from an address to the time it was
  blocked; \<open>logger\<close> holds the messages passed to the \<open>*logging.Logger\<close>. The mutex has
  no counterpart: each method below is one critical section.
\<close>

record Blocker =
  logger :: "log_entry list"
  blockedIPs :: "string \<rightharpoonup> Time"
  blockedMACs :: "string \<rightharpoonup> Time"
  blockedBTAddrs :: "string \<rightharpoonup> Time"
  autoBlock :: bool

definition NewBlocker :: "bool \<Rightarrow> Blocker" where
  "NewBlocker ab =
     \<lparr>logger = [], blockedIPs = Map.empty, blockedMACs = Map.empty,
      blockedBTAddrs = Map.empty, autoBlock = ab\<rparr>"

definition isCommandAvailable :: "'w host \<Rightarrow> 'w \<Rightarrow> string \<Rightarrow> bool" where
  "isCommandAvailable h w cmd = (LookPath h w cmd \<noteq> None)"

text \<open>
  The end of \<open>BlockIP\<close>: run the selected command; on failure return the error, else
  record the block and log the reason.
\<close>

definition BlockIP_run :: "'w host \<Rightarrow> 'w \<Rightarrow> Blocker \<Rightarrow> string \<Rightarrow> string \<Rightarrow> string list
    \<Rightarrow> error option \<times> Blocker \<times> 'w" where
  "BlockIP_run h w b ip reason cmd =
     (case Exec h w Run cmd of
        ((out, Some e), w1) \<Rightarrow>
          (Some (ToolExecutionFailed (''failed to block IP '' @ ip @ '': '' @ e)), b, w1)
      | ((out, None), w1) \<Rightarrow>
          (None,
           b\<lparr>blockedIPs := (blockedIPs b)(ip \<mapsto> Now h w1),
             logger := logger b @ [LogInfo (''Blocked IP '' @ ip @ '': '' @ reason)]\<rparr>,
           w1))"

text \<open>
  \<open>BlockIP\<close>. In the firewalld branch the rule is added first; when that succeeds the
  command to run becomes the reload, and when it fails \<open>cmd\<close> is still the first command
  and \<open>cmd.Run()\<close> is called on it once more. What that second call returns depends on how
  the first one failed: when the process had been started, or the executable had not been
  found, Go returns an error again and starts nothing; when starting the process itself
  had failed, the start is tried again. Here the host answers the second call like any
  other run, so every outcome of the code is an outcome of the model; the model also
  allows a success after a first failure of any kind, which the code shows only in the
  last case.
\<close>

definition BlockIP :: "'w host \<Rightarrow> 'w \<Rightarrow> Blocker \<Rightarrow> string \<Rightarrow> string
    \<Rightarrow> error option \<times> Blocker \<times> 'w" where
  "BlockIP h w b ip reason =
     (if blockedIPs b ip \<noteq> None
      then (Some (StateConflict (''IP '' @ ip @ '' is already blocked'')), b, w)
      else if isCommandAvailable h w ''ufw''
      then BlockIP_run h w b ip reason [''sudo'', ''ufw'', ''deny'', ''from'', ip]
      else if isCommandAvailable h w ''firewall-cmd''
      then (let add = [''sudo'', ''firewall-cmd'', ''--permanent'', ''--add-rich-rule'',
                       ''rule family='ipv4' source address='' @ [CHR 0x27] @ ip @
                       [CHR 0x27] @ '' reject'']
            in case Exec h w Run add of
                 ((out, None), w1) \<Rightarrow>
                   BlockIP_run h w1 b ip reason [''sudo'', ''firewall-cmd'', ''--reload'']
               | ((out, Some e), w1) \<Rightarrow> BlockIP_run h w1 b ip reason add)
      else if isCommandAvailable h w ''iptables''
      then BlockIP_run h w b ip reason
             [''sudo'', ''iptables'', ''-I'', ''INPUT'', ''-s'', ip, ''-j'', ''DROP'']
      else (Some (ToolUnavailable
                    ''no supported firewall tool found (ufw, firewalld, iptables)''), b, w))"

text \<open>
  \<open>UnblockIP\<close> has the same shape, the firewalld branch with its second call of
  \<open>cmd.Run()\<close> included; on success the address is deleted from the map.
\<close>

definition UnblockIP_run :: "'w host \<Rightarrow> 'w \<Rightarrow> Blocker \<Rightarrow> string \<Rightarrow> string list
    \<Rightarrow> error option \<times> Blocker \<times> 'w" where
  "UnblockIP_run h w b ip cmd =
     (case Exec h w Run cmd of
        ((out, Some e), w1) \<Rightarrow>
          (Some (ToolExecutionFailed (''failed to unblock IP '' @ ip @ '': '' @ e)), b, w1)
      | ((out, None), w1) \<Rightarrow>
          (None,
           b\<lparr>blockedIPs := (blockedIPs b)(ip := None),
             logger := logger b @ [LogInfo (''Unblocked IP '' @ ip)]\<rparr>,
           w1))"

definition UnblockIP :: "'w host \<Rightarrow> 'w \<Rightarrow> Blocker \<Rightarrow> string
    \<Rightarrow> error option \<times> Blocker \<times> 'w" where
  "UnblockIP h w b ip =
     (if blockedIPs b ip = None
      then (Some (StateConflict (''IP '' @ ip @ '' is not blocked'')), b, w)
      else if isCommandAvailable h w ''ufw''
      then UnblockIP_run h w b ip [''sudo'', ''ufw'', ''delete'', ''deny'', ''from'', ip]
      else if isCommandAvailable h w ''firewall-cmd''
      then (let rm = [''sudo'', ''firewall-cmd'', ''--permanent'', ''--remove-rich-rule'',
                      ''rule family='ipv4' source address='' @ [CHR 0x27] @ ip @
                      [CHR 0x27] @ '' reject'']
            in case Exec h w Run rm of
                 ((out, None), w1) \<Rightarrow>
                   UnblockIP_run h w1 b ip [''sudo'', ''firewall-cmd'', ''--reload'']
               | ((out, Some e), w1) \<Rightarrow> UnblockIP_run h w1 b ip rm)
      else if isCommandAvailable h w ''iptables''
      then UnblockIP_run h w b ip
             [''sudo'', ''iptables'', ''-D'', ''INPUT'', ''-s'', ip, ''-j'', ''DROP'']
      else (Some (ToolUnavailable ''no supported firewall tool found''), b, w))"

text \<open>
  \<open>BlockMAC\<close>: ebtables first; when it is missing or fails, the fallback to iptables
  with MAC matching.
\<close>

definition BlockMAC_record :: "'w host \<Rightarrow> 'w \<Rightarrow> Blocker \<Rightarrow> string \<Rightarrow> string \<Rightarrow> Blocker" where
  "BlockMAC_record h w b mac reason =
     b\<lparr>blockedMACs := (blockedMACs b)(mac \<mapsto> Now h w),
       logger := logger b @ [LogInfo (''Blocked MAC '' @ mac @ '': '' @ reason)]\<rparr>"

definition BlockMAC_iptables :: "'w host \<Rightarrow> 'w \<Rightarrow> Blocker \<Rightarrow> string \<Rightarrow> string
    \<Rightarrow> error option \<times> Blocker \<times> 'w" where
  "BlockMAC_iptables h w b mac reason =
     (if isCommandAvailable h w ''iptables''
      then (case Exec h w Run [''sudo'', ''iptables'', ''-I'', ''INPUT'', ''-m'', ''mac'',
                               ''--mac-source'', mac, ''-j'', ''DROP''] of
              ((out, Some e), w1) \<Rightarrow>
                (Some (ToolExecutionFailed (''failed to block MAC '' @ mac @ '': '' @ e)), b, w1)
            | ((out, None), w1) \<Rightarrow> (None, BlockMAC_record h w1 b mac reason, w1))
      else (Some (ToolUnavailable
                    ''no supported tool for MAC blocking (ebtables or iptables)''), b, w))"

definition BlockMAC :: "'w host \<Rightarrow> 'w \<Rightarrow> Blocker \<Rightarrow> string \<Rightarrow> string
    \<Rightarrow> error option \<times> Blocker \<times> 'w" where
  "BlockMAC h w b mac reason =
     (if blockedMACs b mac \<noteq> None
      then (Some (StateConflict (''MAC '' @ mac @ '' is already blocked'')), b, w)
      else if isCommandAvailable h w ''ebtables''
      then (case Exec h w Run [''sudo'', ''ebtables'', ''-A'', ''INPUT'', ''-s'', mac,
                               ''-j'', ''DROP''] of
              ((out, None), w1) \<Rightarrow> (None, BlockMAC_record h w1 b mac reason, w1)
            | ((out, Some e), w1) \<Rightarrow> BlockMAC_iptables h w1 b mac reason)
      else BlockMAC_iptables h w b mac reason)"

definition UnblockMAC_record :: "Blocker \<Rightarrow> string \<Rightarrow> Blocker" where
  "UnblockMAC_record b mac =
     b\<lparr>blockedMACs := (blockedMACs b)(mac := None),
       logger := logger b @ [LogInfo (''Unblocked MAC '' @ mac)]\<rparr>"

definition UnblockMAC_iptables :: "'w host \<Rightarrow> 'w \<Rightarrow> Blocker \<Rightarrow> string
    \<Rightarrow> error option \<times> Blocker \<times> 'w" where
  "UnblockMAC_iptables h w b mac =
     (if isCommandAvailable h w ''iptables''
      then (case Exec h w Run [''sudo'', ''iptables'', ''-D'', ''INPUT'', ''-m'', ''mac'',
                               ''--mac-source'', mac, ''-j'', ''DROP''] of
              ((out, Some e), w1) \<Rightarrow>
                (Some (ToolExecutionFailed (''failed to unblock MAC '' @ mac @ '': '' @ e)),
                 b, w1)
            | ((out, None), w1) \<Rightarrow> (None, UnblockMAC_record b mac, w1))
      else (Some (ToolUnavailable ''no supported tool for MAC unblocking''), b, w))"

definition UnblockMAC :: "'w host \<Rightarrow> 'w \<Rightarrow> Blocker \<Rightarrow> string
    \<Rightarrow> error option \<times> Blocker \<times> 'w" where
  "UnblockMAC h w b mac =
     (if blockedMACs b mac = None
      then (Some (StateConflict (''MAC '' @ mac @ '' is not blocked'')), b, w)
      else if isCommandAvailable h w ''ebtables''
      then (case Exec h w Run [''sudo'', ''ebtables'', ''-D'', ''INPUT'', ''-s'', mac,
                               ''-j'', ''DROP''] of
              ((out, None), w1) \<Rightarrow> (None, UnblockMAC_record b mac, w1)
            | ((out, Some e), w1) \<Rightarrow> UnblockMAC_iptables h w1 b mac)
      else UnblockMAC_iptables h w b mac)"

text \<open>
  \<open>BlockBluetoothDevice\<close> and \<open>UnblockBluetoothDevice\<close>: rfkill on the whole
  Bluetooth radio when rfkill is installed; the address is recorded or removed also
  when it is not.
\<close>

definition BlockBluetoothDevice_record :: "'w host \<Rightarrow> 'w \<Rightarrow> Blocker \<Rightarrow> string \<Rightarrow> string
    \<Rightarrow> Blocker" where
  "BlockBluetoothDevice_record h w b btAddr reason =
     b\<lparr>blockedBTAddrs := (blockedBTAddrs b)(btAddr \<mapsto> Now h w),
       logger := logger b @
         [LogInfo (''Blocked Bluetooth device '' @ btAddr @ '': '' @ reason)]\<rparr>"

definition BlockBluetoothDevice :: "'w host \<Rightarrow> 'w \<Rightarrow> Blocker \<Rightarrow> string \<Rightarrow> string
    \<Rightarrow> error option \<times> Blocker \<times> 'w" where
  "BlockBluetoothDevice h w b btAddr reason =
     (if blockedBTAddrs b btAddr \<noteq> None
      then (Some (StateConflict (''Bluetooth device '' @ btAddr @ '' is already blocked'')),
            b, w)
      else if isCommandAvailable h w ''rfkill''
      then (case Exec h w Run [''sudo'', ''rfkill'', ''block'', ''bluetooth''] of
              ((out, Some e), w1) \<Rightarrow>
                (Some (ToolExecutionFailed e),
                 b\<lparr>logger := logger b @
                     [LogError (''Failed to block Bluetooth device '' @ btAddr) e]\<rparr>,
                 w1)
            | ((out, None), w1) \<Rightarrow>
                (None, BlockBluetoothDevice_record h w1 b btAddr reason, w1))
      else (None, BlockBluetoothDevice_record h w b btAddr reason, w))"

definition UnblockBluetoothDevice_record :: "Blocker \<Rightarrow> string \<Rightarrow> Blocker" where
  "UnblockBluetoothDevice_record b btAddr =
     b\<lparr>blockedBTAddrs := (blockedBTAddrs b)(btAddr := None),
       logger := logger b @ [LogInfo (''Unblocked Bluetooth device '' @ btAddr)]\<rparr>"

definition UnblockBluetoothDevice :: "'w host \<Rightarrow> 'w \<Rightarrow> Blocker \<Rightarrow> string
    \<Rightarrow> error option \<times> Blocker \<times> 'w" where
  "UnblockBluetoothDevice h w b btAddr =
     (if blockedBTAddrs b btAddr = None
      then (Some (StateConflict (''Bluetooth device '' @ btAddr @ '' is not blocked'')),
            b, w)
      else if isCommandAvailable h w ''rfkill''
      then (case Exec h w Run [''sudo'', ''rfkill'', ''unblock'', ''bluetooth''] of
              ((out, Some e), w1) \<Rightarrow>
                (Some (ToolExecutionFailed
                         (''failed to unblock Bluetooth device '' @ btAddr @ '': '' @ e)),
                 b, w1)
            | ((out, None), w1) \<Rightarrow> (None, UnblockBluetoothDevice_record b btAddr, w1))
      else (None, UnblockBluetoothDevice_record b btAddr, w))"

text \<open>
  \<open>findMonitorInterface\<close>: the first line of the iwconfig output that contains
  \<open>Mode:Monitor\<close> and has a field gives the interface name.
\<close>

fun firstMonitorLine :: "string list \<Rightarrow> string option" where
  "firstMonitorLine [] = None"
| "firstMonitorLine (line # lines) =
     (if Contains line ''Mode:Monitor''
      then (case Fields line of
              [] \<Rightarrow> firstMonitorLine lines
            | p # ps \<Rightarrow> Some (TrimSuffix p '':''))
      else firstMonitorLine lines)"

definition findMonitorInterface :: "'w host \<Rightarrow> 'w \<Rightarrow> (string + string) \<times> 'w" where
  "findMonitorInterface h w =
     (case Exec h w Output [''iwconfig''] of
        ((output, Some e), w1) \<Rightarrow> (Inl e, w1)
      | ((output, None), w1) \<Rightarrow>
          (case firstMonitorLine (Split output [CHR 0x0A]) of
             Some iface \<Rightarrow> (Inr iface, w1)
           | None \<Rightarrow> (Inl ''no monitor interface found'', w1)))"

definition DeauthWiFiClient :: "'w host \<Rightarrow> 'w \<Rightarrow> Blocker \<Rightarrow> string \<Rightarrow> string \<Rightarrow> string
    \<Rightarrow> error option \<times> Blocker \<times> 'w" where
  "DeauthWiFiClient h w b clientMAC apMAC reason =
     (if \<not> isCommandAvailable h w ''aireplay-ng''
      then (Some (ToolUnavailable ''aireplay-ng not available for WiFi deauthentication''),
            b, w)
      else (case findMonitorInterface h w of
              (Inl e, w1) \<Rightarrow>
                (Some (ToolUnavailable (''no monitor interface available for deauth: '' @ e)),
                 b, w1)
            | (Inr monitorInterface, w1) \<Rightarrow>
                (case Exec h w1 Run [''sudo'', ''aireplay-ng'', ''--deauth'', ''10'', ''-a'',
                                     apMAC, ''-c'', clientMAC, monitorInterface] of
                   ((out, Some e), w2) \<Rightarrow>
                     (Some (ToolExecutionFailed
                              (''failed to deauth WiFi client '' @ clientMAC @ '': '' @ e)),
                      b, w2)
                 | ((out, None), w2) \<Rightarrow>
                     (None,
                      b\<lparr>logger := logger b @
                          [LogInfo (''Deauthenticated WiFi client '' @ clientMAC @
                                    '' from AP '' @ apMAC @ '': '' @ reason)]\<rparr>,
                      w2))))"

definition BlockWiFiAccessPoint :: "'w host \<Rightarrow> 'w \<Rightarrow> Blocker \<Rightarrow> string \<Rightarrow> string
    \<Rightarrow> error option \<times> Blocker \<times> 'w" where
  "BlockWiFiAccessPoint h w b apMAC reason =
     (Some (NotImplemented ''WiFi AP blocking requires additional configuration''),
      b\<lparr>logger := logger b @
          [LogInfo (''WiFi AP blocking not fully implemented for '' @ apMAC @ '': '' @
                    reason)]\<rparr>,
      w)"

text \<open>
  \<open>AutoBlockAttack\<close>. The finding is a \<open>models.Attack\<close>, whose declaration is not among
  the sources; the method reads its \<open>Type\<close>, \<open>Target\<close> and \<open>Description\<close>, which the
  design's Attack entity and the struct of monitors.go both have. A Go \<open>switch\<close> case
  does not fall through.
\<close>

definition AutoBlockAttack :: "'w host \<Rightarrow> 'w \<Rightarrow> Blocker \<Rightarrow> Attack
    \<Rightarrow> error option \<times> Blocker \<times> 'w" where
  "AutoBlockAttack h w b attack =
     (if \<not> autoBlock b then (None, b, w)
      else if Type attack = ''UNKNOWN_DEVICE'' \<or> Type attack = ''SUSPICIOUS_PORT'' \<or>
              Type attack = ''AI_CONNECTION_ANOMALY''
      then (if Contains (Target attack) ''.''
            then BlockIP h w b (Target attack) (''Auto-blocked: '' @ Description attack)
            else (None, b, w))
      else if Type attack = ''BLUETOOTH_SPOOFING'' \<or> Type attack = ''BLUETOOTH_MITM''
      then BlockBluetoothDevice h w b (Target attack)
             (''Auto-blocked: '' @ Description attack)
      else if Type attack = ''EVIL_TWIN'' \<or> Type attack = ''ROGUE_AP''
      then (None,
            b\<lparr>logger := logger b @
                [LogInfo (''Would deauth clients from rogue AP: '' @ Target attack)]\<rparr>,
            w)
      else (None, b, w))"

definition SetAutoBlock :: "Blocker \<Rightarrow> bool \<Rightarrow> Blocker" where
  "SetAutoBlock b enabled =
     b\<lparr>autoBlock := enabled,
       logger := logger b @
         [LogInfo (''Auto-blocking '' @ (if enabled then ''enabled'' else ''disabled''))]\<rparr>"

text \<open>
  The part of the Blocker that the claims call its recorded state: the three
  blocked-address maps and the auto-block flag.
\<close>

definition blocked_maps :: "Blocker \<Rightarrow> (string \<rightharpoonup> Time) \<times> (string \<rightharpoonup> Time) \<times> (string \<rightharpoonup> Time)" where
  "blocked_maps b = (blockedIPs b, blockedMACs b, blockedBTAddrs b)"

section \<open>Hosts and states for concrete runs\<close>

text \<open>
  The hosts below keep as their state the number of commands run so far, and that number
  is also their clock. On the first, ufw is the only tool installed and every command
  succeeds.
\<close>

definition host_ufw :: "nat host" where
  "host_ufw =
     \<lparr>LookPath = (\<lambda>w name. if name = ''ufw'' then Some ''/usr/sbin/ufw'' else None),
      Exec = (\<lambda>w mode argv. (([], None), Suc w)),
      Now = (\<lambda>w. w),
      Format = (\<lambda>t layout. itoa t)\<rparr>"

text \<open>A host on which no tool is installed and every command fails.\<close>

definition host_bare :: "nat host" where
  "host_bare =
     \<lparr>LookPath = (\<lambda>w name. None),
      Exec = (\<lambda>w mode argv. (([], Some ''exec: no command''), Suc w)),
      Now = (\<lambda>w. w),
      Format = (\<lambda>t layout. itoa t)\<rparr>"

text \<open>
  A host on which sudo is found and a command succeeds exactly when it is run through
  sudo.
\<close>

definition host_sudo :: "nat host" where
  "host_sudo =
     \<lparr>LookPath = (\<lambda>w name. if name = ''sudo'' then Some ''/usr/bin/sudo'' else None),
      Exec = (\<lambda>w mode argv.
                if take 1 argv = [''/usr/bin/sudo''] then ((''Scanning ...'', None), Suc w)
                else ((''Permission denied'', Some ''exit status 1''), Suc w)),
      Now = (\<lambda>w. w),
      Format = (\<lambda>t layout. itoa t)\<rparr>"

text \<open>A host on which nmap is found and reports an open FTP port.\<close>

definition host_nmap :: "nat host" where
  "host_nmap =
     \<lparr>LookPath = (\<lambda>w name. if name = ''nmap'' then Some ''/usr/bin/nmap'' else None),
      Exec = (\<lambda>w mode argv. ((''21/tcp open ftp'', None), Suc w)),
      Now = (\<lambda>w. w),
      Format = (\<lambda>t layout. itoa t)\<rparr>"

text \<open>
  What \<open>strings.ToLower\<close> does on ASCII text, for the concrete runs: the letters A to Z
  become a to z, every other byte stays.
\<close>

definition ToLowerASCII :: "string \<Rightarrow> string" where
  "ToLowerASCII s =
     map (\<lambda>c. case map_of (zip ''ABCDEFGHIJKLMNOPQRSTUVWXYZ'' ''abcdefghijklmnopqrstuvwxyz'') c of
                 Some l \<Rightarrow> l
               | None \<Rightarrow> c) s"

text \<open>The package-level variables before any sampler has run.\<close>

definition globals0 :: globals where
  "globals0 =
     \<lparr>WifiAPs = [], WifiClients = [], BtDevices = [], BleDevices = [],
      NetworkInfoVar = \<lparr>Online = False, AvgLatency = []\<rparr>,
      ServiceStatuses = Map.empty, Attacks = []\<rparr>"

text \<open>\<open>n\<close> passes of the Wi-Fi sampler, one after the other.\<close>

fun MonitorWifi_passes :: "nat \<Rightarrow> 'w host \<Rightarrow> 'w \<Rightarrow> globals \<Rightarrow> panic + globals \<times> 'w" where
  "MonitorWifi_passes 0 h w g = Inr (g, w)"
| "MonitorWifi_passes (Suc n) h w g =
     (case MonitorWifi h w g of
        Inl p \<Rightarrow> Inl p
      | Inr (g1, w1) \<Rightarrow> MonitorWifi_passes n h w1 g1)"

text \<open>
  A host with aireplay-ng on which iwconfig lists an interface in monitor mode and every
  command succeeds.
\<close>

definition host_monitor :: "nat host" where
  "host_monitor =
     \<lparr>LookPath = (\<lambda>w name. if name = ''aireplay-ng'' then Some ''/usr/sbin/aireplay-ng''
                            else None),
      Exec = (\<lambda>w mode argv.
                if argv = [''iwconfig'']
                then ((''lo        no wireless extensions.'' @ [CHR 0x0A] @
                       ''wlan0mon  IEEE 802.11  Mode:Monitor  Frequency:2.457 GHz'', None),
                      Suc w)
                else (([], None), Suc w)),
      Now = (\<lambda>w. w),
      Format = (\<lambda>t layout. itoa t)\<rparr>"

text \<open>
  A host whose ping succeeds and prints the given text.
\<close>

definition host_ping :: "string \<Rightarrow> nat host" where
  "host_ping output =
     \<lparr>LookPath = (\<lambda>w name. if name = ''ping'' then Some ''/usr/bin/ping'' else None),
      Exec = (\<lambda>w mode argv. ((output, None), Suc w)),
      Now = (\<lambda>w. w),
      Format = (\<lambda>t layout. itoa t)\<rparr>"

section \<open>The findings log: bound and eviction order\<close>

lemma AddAttack_length: "length (AddAttack log a) \<le> 1000"
  by (simp add: AddAttack_def Let_def)

lemma AddAttack_foldl:
  "foldl AddAttack [] fs = drop (length fs - 1000) fs"
proof (induction fs rule: rev_induct)
  case Nil
  show ?case by simp
next
  case (snoc a fs)
  show ?case
  proof (cases "length fs < 1000")
    case True
    with snoc show ?thesis by (simp add: AddAttack_def Let_def)
  next
    case False
    then have "Suc (length fs) - 1000 = Suc (length fs - 1000)" by simp
    with snoc False show ?thesis by (simp add: AddAttack_def Let_def)
  qed
qed

text \<open>
  C1. The findings log never holds more than 1000 findings, whatever it held before an
  append and however many findings are appended to the empty log; what is kept is the
  last 1000 findings in arrival order, so after 1001 appends the first finding is gone
  and the other 1000 remain in order.
\<close>

theorem C1_findings_log_bounded_fifo:
  "length (AddAttack log a) \<le> 1000 \<and>
   length (foldl AddAttack [] fs) \<le> 1000 \<and>
   foldl AddAttack [] fs = drop (length fs - 1000) fs \<and>
   (length fs = 1001 \<longrightarrow> foldl AddAttack [] fs = tl fs)"
proof -
  have fifo: "foldl AddAttack [] fs = drop (length fs - 1000) fs"
    by (rule AddAttack_foldl)
  have "length fs = 1001 \<Longrightarrow> drop (length fs - 1000) fs = tl fs"
    by (simp add: drop_Suc)
  with fifo show ?thesis
    by (simp add: AddAttack_length)
qed

text \<open>
  C1 at a concrete input: 1001 findings told apart by their timestamps; what is kept is
  all but the first.
\<close>

theorem C1_findings_log_witness:
  "length (map (\<lambda>n. \<lparr>Type = ''UNKNOWN_DEVICE'', Severity = ''Low'', Description = [],
                         Target = [], Timestamp = n\<rparr>) [0..<1001]) = 1001 \<and>
   foldl AddAttack []
     (map (\<lambda>n. \<lparr>Type = ''UNKNOWN_DEVICE'', Severity = ''Low'', Description = [],
                   Target = [], Timestamp = n\<rparr>) [0..<1001])
   = tl (map (\<lambda>n. \<lparr>Type = ''UNKNOWN_DEVICE'', Severity = ''Low'', Description = [],
                      Target = [], Timestamp = n\<rparr>) [0..<1001])"
proof -
  let ?fs = "map (\<lambda>n. \<lparr>Type = ''UNKNOWN_DEVICE'', Severity = ''Low'', Description = [],
                          Target = [], Timestamp = n\<rparr>) [0..<1001]"
  have len: "length ?fs = 1001"
    by (simp del: upt_rec_numeral)
  from C1_findings_log_bounded_fifo [of _ _ ?fs] len show ?thesis
    by blast
qed

section \<open>The Blocker: failures and frame conditions\<close>

lemma BlockIP_run_keeps:
  "fst (BlockIP_run h w b ip reason cmd) \<noteq> None \<Longrightarrow>
   fst (snd (BlockIP_run h w b ip reason cmd)) = b"
  by (auto simp: BlockIP_run_def split: prod.splits option.splits if_splits)

lemma BlockIP_keeps:
  "fst (BlockIP h w b ip reason) \<noteq> None \<Longrightarrow> fst (snd (BlockIP h w b ip reason)) = b"
  by (auto simp: BlockIP_def Let_def BlockIP_run_keeps split: prod.splits option.splits if_splits)

lemma UnblockIP_run_keeps:
  "fst (UnblockIP_run h w b ip cmd) \<noteq> None \<Longrightarrow>
   fst (snd (UnblockIP_run h w b ip cmd)) = b"
  by (auto simp: UnblockIP_run_def split: prod.splits option.splits if_splits)

lemma UnblockIP_keeps:
  "fst (UnblockIP h w b ip) \<noteq> None \<Longrightarrow> fst (snd (UnblockIP h w b ip)) = b"
  by (auto simp: UnblockIP_def Let_def UnblockIP_run_keeps split: prod.splits option.splits if_splits)

lemma BlockMAC_iptables_keeps:
  "fst (BlockMAC_iptables h w b mac reason) \<noteq> None \<Longrightarrow>
   fst (snd (BlockMAC_iptables h w b mac reason)) = b"
  by (auto simp: BlockMAC_iptables_def split: prod.splits option.splits if_splits)

lemma BlockMAC_keeps:
  "fst (BlockMAC h w b mac reason) \<noteq> None \<Longrightarrow> fst (snd (BlockMAC h w b mac reason)) = b"
  by (auto simp: BlockMAC_def BlockMAC_iptables_keeps split: prod.splits option.splits if_splits)

lemma UnblockMAC_iptables_keeps:
  "fst (UnblockMAC_iptables h w b mac) \<noteq> None \<Longrightarrow>
   fst (snd (UnblockMAC_iptables h w b mac)) = b"
  by (auto simp: UnblockMAC_iptables_def split: prod.splits option.splits if_splits)

lemma UnblockMAC_keeps:
  "fst (UnblockMAC h w b mac) \<noteq> None \<Longrightarrow> fst (snd (UnblockMAC h w b mac)) = b"
  by (auto simp: UnblockMAC_def UnblockMAC_iptables_keeps split: prod.splits option.splits if_splits)

lemma BlockBluetoothDevice_keeps:
  "fst (BlockBluetoothDevice h w b a reason) \<noteq> None \<Longrightarrow>
   blocked_maps (fst (snd (BlockBluetoothDevice h w b a reason))) = blocked_maps b \<and>
   autoBlock (fst (snd (BlockBluetoothDevice h w b a reason))) = autoBlock b"
  by (auto simp: BlockBluetoothDevice_def blocked_maps_def split: prod.splits option.splits if_splits)

lemma UnblockBluetoothDevice_keeps:
  "fst (UnblockBluetoothDevice h w b a) \<noteq> None \<Longrightarrow>
   fst (snd (UnblockBluetoothDevice h w b a)) = b"
  by (auto simp: UnblockBluetoothDevice_def split: prod.splits option.splits if_splits)

lemma DeauthWiFiClient_frame:
  "blocked_maps (fst (snd (DeauthWiFiClient h w b c a r))) = blocked_maps b \<and>
   autoBlock (fst (snd (DeauthWiFiClient h w b c a r))) = autoBlock b"
  by (simp add: DeauthWiFiClient_def blocked_maps_def split: prod.splits option.splits sum.splits)

lemma AutoBlockAttack_keeps:
  "fst (AutoBlockAttack h w b a) \<noteq> None \<Longrightarrow>
   blocked_maps (fst (snd (AutoBlockAttack h w b a))) = blocked_maps b"
  using BlockIP_keeps [of h w b "Target a" "''Auto-blocked: '' @ Description a"]
        BlockBluetoothDevice_keeps [of h w b "Target a" "''Auto-blocked: '' @ Description a"]
  by (auto simp: AutoBlockAttack_def blocked_maps_def)

lemma BlockIP_run_ok:
  "fst (BlockIP_run h w b ip reason cmd) = None \<Longrightarrow>
   blockedIPs (fst (snd (BlockIP_run h w b ip reason cmd))) ip \<noteq> None"
  by (auto simp: BlockIP_run_def split: prod.splits option.splits if_splits)

lemma BlockIP_shape:
  "blockedIPs b ip = None \<Longrightarrow>
   (\<exists>w1 cmd. BlockIP h w b ip reason = BlockIP_run h w1 b ip reason cmd) \<or>
   BlockIP h w b ip reason =
     (Some (ToolUnavailable ''no supported firewall tool found (ufw, firewalld, iptables)''),
      b, w)"
  by (simp add: BlockIP_def Let_def split: prod.splits option.splits) blast

lemma BlockIP_ok:
  assumes "fst (BlockIP h w b ip reason) = None"
  shows "blockedIPs (fst (snd (BlockIP h w b ip reason))) ip \<noteq> None"
proof (cases "blockedIPs b ip = None")
  case True
  from BlockIP_shape [OF True, of h w reason] assms show ?thesis
    by (auto dest!: BlockIP_run_ok)
next
  case False
  with assms show ?thesis by (simp add: BlockIP_def)
qed

lemma BlockBluetoothDevice_ok:
  "fst (BlockBluetoothDevice h w b a reason) = None \<Longrightarrow>
   blockedBTAddrs (fst (snd (BlockBluetoothDevice h w b a reason))) a \<noteq> None"
  by (auto simp: BlockBluetoothDevice_def BlockBluetoothDevice_record_def
           split: prod.splits option.splits if_splits)

lemma BlockMAC_ok:
  "fst (BlockMAC h w b a reason) = None \<Longrightarrow>
   blockedMACs (fst (snd (BlockMAC h w b a reason))) a \<noteq> None"
  by (auto simp: BlockMAC_def BlockMAC_iptables_def BlockMAC_record_def
           split: prod.splits option.splits if_splits)

text \<open>
  C10. \<open>DeauthWiFiClient\<close> never changes the Blocker's recorded state: for every
  host, every client and access-point address and every outcome of the call (tool
  missing, no monitor interface, tool error, success) the three blocked-address maps and
  the auto-block flag are the same after the call as before.
\<close>

theorem C10_deauth_frame:
  "blockedIPs (fst (snd (DeauthWiFiClient h w b clientMAC apMAC reason))) = blockedIPs b \<and>
   blockedMACs (fst (snd (DeauthWiFiClient h w b clientMAC apMAC reason))) = blockedMACs b \<and>
   blockedBTAddrs (fst (snd (DeauthWiFiClient h w b clientMAC apMAC reason))) = blockedBTAddrs b \<and>
   autoBlock (fst (snd (DeauthWiFiClient h w b clientMAC apMAC reason))) = autoBlock b"
  using DeauthWiFiClient_frame [of h w b clientMAC apMAC reason]
  by (simp add: blocked_maps_def)

lemma block_conflicts:
  "blockedIPs b a \<noteq> None \<Longrightarrow> BlockIP h w b a reason =
     (Some (StateConflict (''IP '' @ a @ '' is already blocked'')), b, w)"
  "blockedIPs b a = None \<Longrightarrow> UnblockIP h w b a =
     (Some (StateConflict (''IP '' @ a @ '' is not blocked'')), b, w)"
  "blockedMACs b a \<noteq> None \<Longrightarrow> BlockMAC h w b a reason =
     (Some (StateConflict (''MAC '' @ a @ '' is already blocked'')), b, w)"
  "blockedMACs b a = None \<Longrightarrow> UnblockMAC h w b a =
     (Some (StateConflict (''MAC '' @ a @ '' is not blocked'')), b, w)"
  "blockedBTAddrs b a \<noteq> None \<Longrightarrow> BlockBluetoothDevice h w b a reason =
     (Some (StateConflict (''Bluetooth device '' @ a @ '' is already blocked'')), b, w)"
  "blockedBTAddrs b a = None \<Longrightarrow> UnblockBluetoothDevice h w b a =
     (Some (StateConflict (''Bluetooth device '' @ a @ '' is not blocked'')), b, w)"
  by (simp_all add: BlockIP_def UnblockIP_def BlockMAC_def UnblockMAC_def
        BlockBluetoothDevice_def UnblockBluetoothDevice_def)

text \<open>
  A run in which the deauthentication is sent: the interface name is read from the
  iwconfig output, the burst is logged, and the maps stay empty.
\<close>

lemma deauth_example:
  "DeauthWiFiClient host_monitor 0 (NewBlocker False) ''11:22:33:44:55:66'' ''AA:AA'' ''evil twin''
   = (None,
      (NewBlocker False)\<lparr>logger :=
         [LogInfo ''Deauthenticated WiFi client 11:22:33:44:55:66 from AP AA:AA: evil twin'']\<rparr>,
      2)"
  by (simp add: DeauthWiFiClient_def findMonitorInterface_def host_monitor_def
        isCommandAvailable_def NewBlocker_def Split_def Fields_def spaceRunes_def
        TrimSuffix_def HasSuffix_def)

text \<open>
  C2. A block of an address that is already blocked and an unblock of an address that is
  not blocked fail with a state conflict and leave the Blocker exactly as it was, for
  IPs, MACs and Bluetooth addresses alike. After a \<open>BlockIP\<close> that succeeded the
  address is in the blocked-IP map, and a second \<open>BlockIP\<close> of it (on any host, for
  any reason) fails with the state conflict and leaves the Blocker, hence that one entry,
  as it was. Every mutation that returns an error leaves the three blocked-address maps
  unchanged.
\<close>

theorem C2_blocker_failure_keeps_maps:
  "(blockedIPs b a \<noteq> None \<longrightarrow> BlockIP h w b a reason =
      (Some (StateConflict (''IP '' @ a @ '' is already blocked'')), b, w)) \<and>
   (blockedIPs b a = None \<longrightarrow> UnblockIP h w b a =
      (Some (StateConflict (''IP '' @ a @ '' is not blocked'')), b, w)) \<and>
   (blockedMACs b a \<noteq> None \<longrightarrow> BlockMAC h w b a reason =
      (Some (StateConflict (''MAC '' @ a @ '' is already blocked'')), b, w)) \<and>
   (blockedMACs b a = None \<longrightarrow> UnblockMAC h w b a =
      (Some (StateConflict (''MAC '' @ a @ '' is not blocked'')), b, w)) \<and>
   (blockedBTAddrs b a \<noteq> None \<longrightarrow> BlockBluetoothDevice h w b a reason =
      (Some (StateConflict (''Bluetooth device '' @ a @ '' is already blocked'')), b, w)) \<and>
   (blockedBTAddrs b a = None \<longrightarrow> UnblockBluetoothDevice h w b a =
      (Some (StateConflict (''Bluetooth device '' @ a @ '' is not blocked'')), b, w)) \<and>
   (fst (BlockIP h w b a reason) = None \<longrightarrow>
      blockedIPs (fst (snd (BlockIP h w b a reason))) a \<noteq> None \<and>
      BlockIP h2 w2 (fst (snd (BlockIP h w b a reason))) a reason2 =
        (Some (StateConflict (''IP '' @ a @ '' is already blocked'')),
         fst (snd (BlockIP h w b a reason)), w2)) \<and>
   (fst (BlockIP h w b a reason) \<noteq> None \<longrightarrow>
      blocked_maps (fst (snd (BlockIP h w b a reason))) = blocked_maps b) \<and>
   (fst (UnblockIP h w b a) \<noteq> None \<longrightarrow>
      blocked_maps (fst (snd (UnblockIP h w b a))) = blocked_maps b) \<and>
   (fst (BlockMAC h w b a reason) \<noteq> None \<longrightarrow>
      blocked_maps (fst (snd (BlockMAC h w b a reason))) = blocked_maps b) \<and>
   (fst (UnblockMAC h w b a) \<noteq> None \<longrightarrow>
      blocked_maps (fst (snd (UnblockMAC h w b a))) = blocked_maps b) \<and>
   (fst (BlockBluetoothDevice h w b a reason) \<noteq> None \<longrightarrow>
      blocked_maps (fst (snd (BlockBluetoothDevice h w b a reason))) = blocked_maps b) \<and>
   (fst (UnblockBluetoothDevice h w b a) \<noteq> None \<longrightarrow>
      blocked_maps (fst (snd (UnblockBluetoothDevice h w b a))) = blocked_maps b) \<and>
   (fst (BlockWiFiAccessPoint h w b a reason) \<noteq> None \<longrightarrow>
      blocked_maps (fst (snd (BlockWiFiAccessPoint h w b a reason))) = blocked_maps b) \<and>
   (fst (DeauthWiFiClient h w b a apMAC reason) \<noteq> None \<longrightarrow>
      blocked_maps (fst (snd (DeauthWiFiClient h w b a apMAC reason))) = blocked_maps b) \<and>
   (fst (AutoBlockAttack h w b attack) \<noteq> None \<longrightarrow>
      blocked_maps (fst (snd (AutoBlockAttack h w b attack))) = blocked_maps b)"
proof -
  have twice: "fst (BlockIP h w b a reason) = None \<Longrightarrow>
      blockedIPs (fst (snd (BlockIP h w b a reason))) a \<noteq> None \<and>
      BlockIP h2 w2 (fst (snd (BlockIP h w b a reason))) a reason2 =
        (Some (StateConflict (''IP '' @ a @ '' is already blocked'')),
         fst (snd (BlockIP h w b a reason)), w2)"
  proof -
    assume ok: "fst (BlockIP h w b a reason) = None"
    have in_map: "blockedIPs (fst (snd (BlockIP h w b a reason))) a \<noteq> None"
      using ok by (rule BlockIP_ok)
    from block_conflicts(1) [OF in_map] in_map show ?thesis by simp
  qed
  have wifi: "blocked_maps (fst (snd (BlockWiFiAccessPoint h w b a reason))) = blocked_maps b"
    by (simp add: BlockWiFiAccessPoint_def blocked_maps_def)
  show ?thesis
    by (intro conjI impI)
       (simp_all add: block_conflicts twice wifi BlockIP_keeps UnblockIP_keeps
          BlockMAC_keeps UnblockMAC_keeps BlockBluetoothDevice_keeps
          UnblockBluetoothDevice_keeps DeauthWiFiClient_frame AutoBlockAttack_keeps)
qed

text \<open>
  C2 at a concrete input, a host with ufw: the first \<open>BlockIP\<close> of 1.2.3.4 succeeds,
  the second fails and the map still holds the single entry of the first; the unblock of
  an address never blocked fails and changes nothing; \<open>BlockMAC\<close> finds no tool, fails
  and changes nothing.
\<close>

theorem C2_blocker_failure_witness:
  "fst (BlockIP host_ufw 5 (NewBlocker False) ''1.2.3.4'' ''x'') = None \<and>
   BlockIP host_ufw 6
       (fst (snd (BlockIP host_ufw 5 (NewBlocker False) ''1.2.3.4'' ''x''))) ''1.2.3.4'' ''x''
     = (Some (StateConflict ''IP 1.2.3.4 is already blocked''),
        fst (snd (BlockIP host_ufw 5 (NewBlocker False) ''1.2.3.4'' ''x'')), 6) \<and>
   blockedIPs (fst (snd (BlockIP host_ufw 5 (NewBlocker False) ''1.2.3.4'' ''x'')))
     = [''1.2.3.4'' \<mapsto> 6] \<and>
   UnblockIP host_ufw 5 (NewBlocker False) ''1.2.3.4''
     = (Some (StateConflict ''IP 1.2.3.4 is not blocked''), NewBlocker False, 5) \<and>
   UnblockMAC host_ufw 5 (NewBlocker False) ''1.2.3.4''
     = (Some (StateConflict ''MAC 1.2.3.4 is not blocked''), NewBlocker False, 5) \<and>
   UnblockBluetoothDevice host_ufw 5 (NewBlocker False) ''1.2.3.4''
     = (Some (StateConflict ''Bluetooth device 1.2.3.4 is not blocked''), NewBlocker False, 5) \<and>
   fst (BlockMAC host_ufw 5 (NewBlocker False) ''1.2.3.4'' ''x'')
     = Some (ToolUnavailable ''no supported tool for MAC blocking (ebtables or iptables)'') \<and>
   blocked_maps (fst (snd (BlockMAC host_ufw 5 (NewBlocker False) ''1.2.3.4'' ''x'')))
     = blocked_maps (NewBlocker False)"
proof -
  note inst = C2_blocker_failure_keeps_maps
         [of "NewBlocker False" "''1.2.3.4''" host_ufw 5 "''x''" host_ufw 6 "''x''"]
  have first: "fst (BlockIP host_ufw 5 (NewBlocker False) ''1.2.3.4'' ''x'') = None"
    by (simp add: BlockIP_def BlockIP_run_def host_ufw_def NewBlocker_def
          isCommandAvailable_def)
  have entry: "blockedIPs (fst (snd (BlockIP host_ufw 5 (NewBlocker False) ''1.2.3.4'' ''x'')))
     = [''1.2.3.4'' \<mapsto> 6]"
    by (simp add: BlockIP_def BlockIP_run_def host_ufw_def NewBlocker_def
          isCommandAvailable_def)
  have fresh: "blockedIPs (NewBlocker False) ''1.2.3.4'' = None"
      "blockedMACs (NewBlocker False) ''1.2.3.4'' = None"
      "blockedBTAddrs (NewBlocker False) ''1.2.3.4'' = None"
    by (simp_all add: NewBlocker_def)
  have mac: "fst (BlockMAC host_ufw 5 (NewBlocker False) ''1.2.3.4'' ''x'')
     = Some (ToolUnavailable ''no supported tool for MAC blocking (ebtables or iptables)'')"
    by (simp add: BlockMAC_def BlockMAC_iptables_def host_ufw_def NewBlocker_def
          isCommandAvailable_def)
  then have mac_err: "fst (BlockMAC host_ufw 5 (NewBlocker False) ''1.2.3.4'' ''x'') \<noteq> None"
    by simp
  from inst first entry fresh mac mac_err show ?thesis by simp
qed

text \<open>
  C8, as stated, fails where the block itself fails: with auto-block enabled, on a host
  without ufw, firewall-cmd and iptables, an UNKNOWN_DEVICE finding whose target is
  1.2.3.4 makes \<open>AutoBlockAttack\<close> return the error of \<open>BlockIP\<close>, and the target is
  not in the blocked-IP map.
\<close>

theorem C8_auto_mitigate_counterexample:
  "autoBlock (NewBlocker True) \<and>
   Contains ''1.2.3.4'' ''.'' \<and>
   AutoBlockAttack host_bare 0 (NewBlocker True)
       \<lparr>Type = ''UNKNOWN_DEVICE'', Severity = ''High'', Description = ''new device'',
        Target = ''1.2.3.4'', Timestamp = 0\<rparr>
     = (Some (ToolUnavailable ''no supported firewall tool found (ufw, firewalld, iptables)''),
        NewBlocker True, 0) \<and>
   blockedIPs (NewBlocker True) ''1.2.3.4'' = None"
  by (simp add: AutoBlockAttack_def BlockIP_def NewBlocker_def host_bare_def
        isCommandAvailable_def)

text \<open>
  C8, amended. \<open>AutoBlockAttack\<close> returns no error and changes nothing while auto-block
  is disabled. With auto-block enabled, a finding of type UNKNOWN_DEVICE, SUSPICIOUS_PORT
  or AI_CONNECTION_ANOMALY whose target contains a dot is handed to \<open>BlockIP\<close>, and a
  finding of type BLUETOOTH_SPOOFING or BLUETOOTH_MITM to \<open>BlockBluetoothDevice\<close>: the
  result is the result of that call, so the target is in the blocked map whenever the
  call returns no error, and an error it returns leaves the maps and the flag unchanged.
  Findings of type EVIL_TWIN or ROGUE_AP only log the intent.
\<close>

theorem C8_auto_mitigate:
  "(\<not> autoBlock b \<longrightarrow> AutoBlockAttack h w b attack = (None, b, w)) \<and>
   (autoBlock b \<and>
    (Type attack = ''UNKNOWN_DEVICE'' \<or> Type attack = ''SUSPICIOUS_PORT'' \<or>
     Type attack = ''AI_CONNECTION_ANOMALY'') \<and>
    Contains (Target attack) ''.'' \<longrightarrow>
      AutoBlockAttack h w b attack =
        BlockIP h w b (Target attack) (''Auto-blocked: '' @ Description attack) \<and>
      (fst (AutoBlockAttack h w b attack) = None \<longrightarrow>
         blockedIPs (fst (snd (AutoBlockAttack h w b attack))) (Target attack) \<noteq> None)) \<and>
   (autoBlock b \<and>
    (Type attack = ''BLUETOOTH_SPOOFING'' \<or> Type attack = ''BLUETOOTH_MITM'') \<longrightarrow>
      AutoBlockAttack h w b attack =
        BlockBluetoothDevice h w b (Target attack) (''Auto-blocked: '' @ Description attack) \<and>
      (fst (AutoBlockAttack h w b attack) = None \<longrightarrow>
         blockedBTAddrs (fst (snd (AutoBlockAttack h w b attack))) (Target attack) \<noteq> None)) \<and>
   (autoBlock b \<and> (Type attack = ''EVIL_TWIN'' \<or> Type attack = ''ROGUE_AP'') \<longrightarrow>
      AutoBlockAttack h w b attack =
        (None,
         b\<lparr>logger := logger b @
             [LogInfo (''Would deauth clients from rogue AP: '' @ Target attack)]\<rparr>,
         w)) \<and>
   (fst (AutoBlockAttack h w b attack) \<noteq> None \<longrightarrow>
      blocked_maps (fst (snd (AutoBlockAttack h w b attack))) = blocked_maps b \<and>
      autoBlock (fst (snd (AutoBlockAttack h w b attack))) = autoBlock b)"
proof -
  have off: "\<not> autoBlock b \<Longrightarrow> AutoBlockAttack h w b attack = (None, b, w)"
    by (simp add: AutoBlockAttack_def)
  have ip: "autoBlock b \<and>
    (Type attack = ''UNKNOWN_DEVICE'' \<or> Type attack = ''SUSPICIOUS_PORT'' \<or>
     Type attack = ''AI_CONNECTION_ANOMALY'') \<and>
    Contains (Target attack) ''.'' \<Longrightarrow>
      AutoBlockAttack h w b attack =
        BlockIP h w b (Target attack) (''Auto-blocked: '' @ Description attack)"
    by (auto simp: AutoBlockAttack_def)
  have bt: "autoBlock b \<and>
    (Type attack = ''BLUETOOTH_SPOOFING'' \<or> Type attack = ''BLUETOOTH_MITM'') \<Longrightarrow>
      AutoBlockAttack h w b attack =
        BlockBluetoothDevice h w b (Target attack) (''Auto-blocked: '' @ Description attack)"
    by (auto simp: AutoBlockAttack_def)
  have wifi: "autoBlock b \<and> (Type attack = ''EVIL_TWIN'' \<or> Type attack = ''ROGUE_AP'') \<Longrightarrow>
      AutoBlockAttack h w b attack =
        (None,
         b\<lparr>logger := logger b @
             [LogInfo (''Would deauth clients from rogue AP: '' @ Target attack)]\<rparr>,
         w)"
    by (auto simp: AutoBlockAttack_def)
  have flag: "fst (AutoBlockAttack h w b attack) \<noteq> None \<Longrightarrow>
      autoBlock (fst (snd (AutoBlockAttack h w b attack))) = autoBlock b"
    using BlockIP_keeps [of h w b "Target attack" "''Auto-blocked: '' @ Description attack"]
      BlockBluetoothDevice_keeps
        [of h w b "Target attack" "''Auto-blocked: '' @ Description attack"]
    by (auto simp: AutoBlockAttack_def)
  show ?thesis
    using off ip bt wifi flag AutoBlockAttack_keeps [of h w b attack]
      BlockIP_ok [of h w b "Target attack" "''Auto-blocked: '' @ Description attack"]
      BlockBluetoothDevice_ok
        [of h w b "Target attack" "''Auto-blocked: '' @ Description attack"]
    by (intro conjI impI) simp_all
qed

text \<open>
  C8 (amended) at concrete inputs. On a host with ufw: with auto-block disabled nothing
  happens; after enabling it the same UNKNOWN_DEVICE finding puts 1.2.3.4 into the
  blocked-IP map, a BLUETOOTH_MITM finding puts its target into the Bluetooth map, and
  an EVIL_TWIN finding is only logged. On a host without tools the error leaves the maps
  as they were.
\<close>

theorem C8_auto_mitigate_witness:
  "AutoBlockAttack host_ufw 0 (NewBlocker False)
       \<lparr>Type = ''UNKNOWN_DEVICE'', Severity = ''High'', Description = ''new device'',
        Target = ''1.2.3.4'', Timestamp = 0\<rparr>
     = (None, NewBlocker False, 0) \<and>
   fst (AutoBlockAttack host_ufw 0 (SetAutoBlock (NewBlocker False) True)
       \<lparr>Type = ''UNKNOWN_DEVICE'', Severity = ''High'', Description = ''new device'',
        Target = ''1.2.3.4'', Timestamp = 0\<rparr>) = None \<and>
   blockedIPs (fst (snd (AutoBlockAttack host_ufw 0 (SetAutoBlock (NewBlocker False) True)
       \<lparr>Type = ''UNKNOWN_DEVICE'', Severity = ''High'', Description = ''new device'',
        Target = ''1.2.3.4'', Timestamp = 0\<rparr>))) ''1.2.3.4'' \<noteq> None \<and>
   blockedBTAddrs (fst (snd (AutoBlockAttack host_ufw 0 (NewBlocker True)
       \<lparr>Type = ''BLUETOOTH_MITM'', Severity = ''High'', Description = ''proxy'',
        Target = ''AA:BB:CC:DD:EE:FF'', Timestamp = 0\<rparr>))) ''AA:BB:CC:DD:EE:FF'' \<noteq> None \<and>
   AutoBlockAttack host_ufw 0 (NewBlocker True)
       \<lparr>Type = ''EVIL_TWIN'', Severity = ''High'', Description = ''twin'',
        Target = ''Home'', Timestamp = 0\<rparr>
     = (None,
        (NewBlocker True)\<lparr>logger := [LogInfo ''Would deauth clients from rogue AP: Home'']\<rparr>,
        0) \<and>
   blocked_maps (fst (snd (AutoBlockAttack host_bare 0 (NewBlocker True)
       \<lparr>Type = ''UNKNOWN_DEVICE'', Severity = ''High'', Description = ''new device'',
        Target = ''1.2.3.4'', Timestamp = 0\<rparr>))) = blocked_maps (NewBlocker True)"
proof -
  let ?a = "\<lparr>Type = ''UNKNOWN_DEVICE'', Severity = ''High'', Description = ''new device'',
        Target = ''1.2.3.4'', Timestamp = 0\<rparr>"
  let ?m = "\<lparr>Type = ''BLUETOOTH_MITM'', Severity = ''High'', Description = ''proxy'',
        Target = ''AA:BB:CC:DD:EE:FF'', Timestamp = 0\<rparr>"
  let ?t = "\<lparr>Type = ''EVIL_TWIN'', Severity = ''High'', Description = ''twin'',
        Target = ''Home'', Timestamp = 0\<rparr>"
  have off: "\<not> autoBlock (NewBlocker False)"
    by (simp add: NewBlocker_def)
  have on: "autoBlock (SetAutoBlock (NewBlocker False) True)"
    by (simp add: SetAutoBlock_def)
  have on': "autoBlock (NewBlocker True)"
    by (simp add: NewBlocker_def)
  have shape: "Type ?a = ''UNKNOWN_DEVICE'' \<and> Contains (Target ?a) ''.''"
    by simp
  have ok: "fst (BlockIP host_ufw 0 (SetAutoBlock (NewBlocker False) True) (Target ?a)
                  (''Auto-blocked: '' @ Description ?a)) = None"
    by (simp add: BlockIP_def BlockIP_run_def host_ufw_def NewBlocker_def SetAutoBlock_def
          isCommandAvailable_def)
  from C8_auto_mitigate [of "NewBlocker False" host_ufw 0 ?a] off
  have first: "AutoBlockAttack host_ufw 0 (NewBlocker False) ?a = (None, NewBlocker False, 0)"
    by blast
  have eq: "AutoBlockAttack host_ufw 0 (SetAutoBlock (NewBlocker False) True) ?a =
      BlockIP host_ufw 0 (SetAutoBlock (NewBlocker False) True) (Target ?a)
        (''Auto-blocked: '' @ Description ?a)"
    using C8_auto_mitigate [of "SetAutoBlock (NewBlocker False) True" host_ufw 0 ?a] on shape
    by blast
  have ok': "fst (AutoBlockAttack host_ufw 0 (SetAutoBlock (NewBlocker False) True) ?a) = None"
    using eq ok by simp
  have second: "blockedIPs
      (fst (snd (AutoBlockAttack host_ufw 0 (SetAutoBlock (NewBlocker False) True) ?a)))
      (Target ?a) \<noteq> None"
    using C8_auto_mitigate [of "SetAutoBlock (NewBlocker False) True" host_ufw 0 ?a] on shape ok'
    by blast
  have bt_shape: "Type ?m = ''BLUETOOTH_MITM''" by simp
  have bt_ok: "fst (BlockBluetoothDevice host_ufw 0 (NewBlocker True) (Target ?m)
                  (''Auto-blocked: '' @ Description ?m)) = None"
    by (simp add: BlockBluetoothDevice_def host_ufw_def NewBlocker_def isCommandAvailable_def)
  have bt_eq: "AutoBlockAttack host_ufw 0 (NewBlocker True) ?m =
      BlockBluetoothDevice host_ufw 0 (NewBlocker True) (Target ?m)
        (''Auto-blocked: '' @ Description ?m)"
    using C8_auto_mitigate [of "NewBlocker True" host_ufw 0 ?m] on' bt_shape by blast
  have bt_ok': "fst (AutoBlockAttack host_ufw 0 (NewBlocker True) ?m) = None"
    using bt_eq bt_ok by simp
  have third: "blockedBTAddrs (fst (snd (AutoBlockAttack host_ufw 0 (NewBlocker True) ?m)))
      (Target ?m) \<noteq> None"
    using C8_auto_mitigate [of "NewBlocker True" host_ufw 0 ?m] on' bt_shape bt_ok' by blast
  have tw_shape: "Type ?t = ''EVIL_TWIN''" by simp
  have fourth: "AutoBlockAttack host_ufw 0 (NewBlocker True) ?t =
      (None,
       (NewBlocker True)\<lparr>logger := logger (NewBlocker True) @
          [LogInfo (''Would deauth clients from rogue AP: '' @ Target ?t)]\<rparr>, 0)"
    using C8_auto_mitigate [of "NewBlocker True" host_ufw 0 ?t] on' tw_shape by blast
  have err: "fst (AutoBlockAttack host_bare 0 (NewBlocker True) ?a) \<noteq> None"
    by (simp add: AutoBlockAttack_def BlockIP_def NewBlocker_def host_bare_def
          isCommandAvailable_def)
  have fifth: "blocked_maps (fst (snd (AutoBlockAttack host_bare 0 (NewBlocker True) ?a))) =
      blocked_maps (NewBlocker True)"
    using C8_auto_mitigate [of "NewBlocker True" host_bare 0 ?a] err by blast
  have log0: "logger (NewBlocker True) = []" by (simp add: NewBlocker_def)
  from first ok' second third fourth fifth log0 show ?thesis by simp
qed

section \<open>The Tool Invoker: elevation fallback\<close>

lemma HasPrefix_iff: "HasPrefix s p \<longleftrightarrow> (\<exists>v. s = p @ v)"
  by (induction s p rule: HasPrefix.induct) auto

lemma Contains_iff: "Contains s sub \<longleftrightarrow> (\<exists>u v. s = u @ sub @ v)"
proof (induction s)
  case Nil
  show ?case by auto
next
  case (Cons c cs)
  show ?case
  proof
    assume "Contains (c # cs) sub"
    then consider "HasPrefix (c # cs) sub" | "Contains cs sub" by auto
    then show "\<exists>u v. c # cs = u @ sub @ v"
    proof cases
      case 1
      then obtain v where "c # cs = sub @ v" by (auto simp: HasPrefix_iff)
      then have "c # cs = [] @ sub @ v" by simp
      then show ?thesis by blast
    next
      case 2
      with Cons obtain u v where "cs = u @ sub @ v" by blast
      then have "c # cs = (c # u) @ sub @ v" by simp
      then show ?thesis by blast
    qed
  next
    assume "\<exists>u v. c # cs = u @ sub @ v"
    then obtain u v where uv: "c # cs = u @ sub @ v" by blast
    show "Contains (c # cs) sub"
    proof (cases u)
      case Nil
      with uv have "HasPrefix (c # cs) sub" by (auto simp: HasPrefix_iff)
      then show ?thesis by simp
    next
      case (Cons d u')
      with uv have "cs = u' @ sub @ v" by simp
      with Cons.IH have "Contains cs sub" by blast
      then show ?thesis by simp
    qed
  qed
qed

lemma containsAny_iff:
  "containsAny errorStr inds \<longleftrightarrow> (\<exists>i\<in>set inds. \<exists>u v. errorStr = u @ i @ v)"
  by (induction inds) (auto simp: Contains_iff)

text \<open>
  C7. Let the first run of the command give output \<open>out\<close> and error \<open>err\<close>. When
  the command failed, \<open>out\<close> followed by the error text contains one of the six fixed
  indicators or of the caller's patterns, and sudo is found, the result of
  \<open>runCommandOrSudo\<close> is the result of one run of the same argument vector prefixed
  with the sudo path, success or failure. When the command succeeded, or no indicator
  occurs, or sudo is not found, the result is the command, output and error of the first
  run, and nothing else is run.
\<close>

theorem C7_elevation_fallback:
  "Exec h w CombinedOutput cmd = ((out, err), w1) \<Longrightarrow>
   (\<forall>e p. err = Some e \<and>
           (\<exists>i\<in>set (sudoIndicators @ pats). \<exists>u v. out @ e = u @ i @ v) \<and>
           LookPath h w1 ''sudo'' = Some p \<longrightarrow>
      runCommandOrSudo h w cmd pats =
        ((p # cmd, fst (Exec h w1 CombinedOutput (p # cmd))),
         snd (Exec h w1 CombinedOutput (p # cmd)))) \<and>
   (err = None \<or>
    (\<exists>e. err = Some e \<and> \<not> (\<exists>i\<in>set (sudoIndicators @ pats). \<exists>u v. out @ e = u @ i @ v)) \<or>
    LookPath h w1 ''sudo'' = None \<longrightarrow>
      runCommandOrSudo h w cmd pats = ((cmd, out, err), w1))"
  by (auto simp: runCommandOrSudo_def containsAny_iff split: prod.splits option.splits)

text \<open>
  C7 at concrete inputs: a scan that fails with a permission error and succeeds under sudo; and the same scan on
  a host without sudo, whose failure comes back unchanged.
\<close>

theorem C7_elevation_fallback_witness:
  "runCommandOrSudo host_sudo 0 [''timeout'', ''10'', ''hcitool'', ''scan''] []
     = (([''/usr/bin/sudo'', ''timeout'', ''10'', ''hcitool'', ''scan''], ''Scanning ...'', None), 2) \<and>
   runCommandOrSudo host_bare 0 [''timeout'', ''10'', ''hcitool'', ''scan''] []
     = (([''timeout'', ''10'', ''hcitool'', ''scan''], [], Some ''exec: no command''), 1)"
proof -
  let ?cmd = "[''timeout'', ''10'', ''hcitool'', ''scan'']"
  have run1: "Exec host_sudo 0 CombinedOutput ?cmd
      = ((''Permission denied'', Some ''exit status 1''), 1)"
    by (simp add: host_sudo_def)
  have ind: "\<exists>i\<in>set (sudoIndicators @ []). \<exists>u v.
      ''Permission denied'' @ ''exit status 1'' = u @ i @ v"
  proof -
    have "containsAny (''Permission denied'' @ ''exit status 1'') (sudoIndicators @ [])"
      by (simp add: sudoIndicators_def)
    then show ?thesis by (rule iffD1 [OF containsAny_iff])
  qed
  have path: "LookPath host_sudo 1 ''sudo'' = Some ''/usr/bin/sudo''"
    by (simp add: host_sudo_def)
  have run2: "Exec host_sudo 1 CombinedOutput (''/usr/bin/sudo'' # ?cmd)
      = ((''Scanning ...'', None), 2)"
    by (simp add: host_sudo_def)
  have prem: "Some ''exit status 1'' = Some ''exit status 1'' \<and>
      (\<exists>i\<in>set (sudoIndicators @ []). \<exists>u v.
         ''Permission denied'' @ ''exit status 1'' = u @ i @ v) \<and>
      LookPath host_sudo 1 ''sudo'' = Some ''/usr/bin/sudo''"
    using ind path by (intro conjI refl)
  have "runCommandOrSudo host_sudo 0 ?cmd [] =
      ((''/usr/bin/sudo'' # ?cmd, fst (Exec host_sudo 1 CombinedOutput (''/usr/bin/sudo'' # ?cmd))),
       snd (Exec host_sudo 1 CombinedOutput (''/usr/bin/sudo'' # ?cmd)))"
    by (rule C7_elevation_fallback [OF run1, THEN conjunct1, rule_format, OF prem])
  then have first: "runCommandOrSudo host_sudo 0 ?cmd [] =
      ((''/usr/bin/sudo'' # ?cmd, ''Scanning ...'', None), 2)"
    by (simp only: run2 fst_conv snd_conv)
  have run3: "Exec host_bare 0 CombinedOutput ?cmd = (([], Some ''exec: no command''), 1)"
    by (simp add: host_bare_def)
  have nopath: "LookPath host_bare 1 ''sudo'' = None"
    by (simp add: host_bare_def)
  have second: "runCommandOrSudo host_bare 0 ?cmd [] = ((?cmd, [], Some ''exec: no command''), 1)"
    by (rule C7_elevation_fallback [OF run3, THEN conjunct2, rule_format, OF disjI2, OF disjI2,
          OF nopath])
  from first second show ?thesis by (rule conjI)
qed

section \<open>Detection heuristics: evil twins and determinism\<close>

lemma map_of_appendTo:
  "map_of (appendTo k v al) =
     (map_of al)(k \<mapsto> (case map_of al k of None \<Rightarrow> [] | Some vs \<Rightarrow> vs) @ [v])"
  by (induction al) (auto simp: fun_eq_iff)

lemma keys_appendTo:
  "map fst (appendTo k v al) = (if k \<in> set (map fst al) then map fst al else map fst al @ [k])"
  by (induction al) (force simp: image_iff)+

lemma distinct_appendTo:
  "distinct (map fst al) \<Longrightarrow> distinct (map fst (appendTo k v al))"
  by (simp add: keys_appendTo)

lemma distinct_ssidCounts:
  "distinct (map fst m) \<Longrightarrow> distinct (map fst (ssidCounts devices m))"
  by (induction devices arbitrary: m) (simp_all add: distinct_appendTo)

lemma map_of_ssidCounts:
  "map_of (ssidCounts devices m) k =
     (case map_of m k of
        None \<Rightarrow>
          (if filter (\<lambda>d. ESSID d \<noteq> [] \<and> ESSID d \<noteq> ''Hidden'' \<and> ESSID d = k) devices = []
           then None
           else Some (map BSSID
                  (filter (\<lambda>d. ESSID d \<noteq> [] \<and> ESSID d \<noteq> ''Hidden'' \<and> ESSID d = k) devices)))
      | Some vs \<Rightarrow>
          Some (vs @ map BSSID
                  (filter (\<lambda>d. ESSID d \<noteq> [] \<and> ESSID d \<noteq> ''Hidden'' \<and> ESSID d = k) devices)))"
proof (induction devices arbitrary: m)
  case Nil
  show ?case by (simp split: option.splits)
next
  case (Cons d devices)
  show ?case
    by (simp add: Cons.IH map_of_appendTo split: option.splits)
qed

lemma sum_list_sort_key:
  "sum_list (map (h :: 'a \<Rightarrow> 'b::comm_monoid_add) (sort_key f xs)) = sum_list (map h xs)"
proof -
  have "sum_mset (image_mset h (mset (sort_key f xs))) = sum_mset (image_mset h (mset xs))"
    by simp
  then show ?thesis
    by (metis mset_map sum_mset_sum_list)
qed

lemma length_filter_concat:
  "length (filter P (concat (map g xs))) = sum_list (map (\<lambda>x. length (filter P (g x))) xs)"
  by (induction xs) simp_all

lemma count_entry:
  "distinct (map fst al) \<Longrightarrow>
   sum_list (map (\<lambda>e. if fst e = k \<and> Q (snd e) then 1 else 0) al) =
     (case map_of al k of None \<Rightarrow> 0 | Some v \<Rightarrow> if Q v then 1 else (0::nat))"
proof (induction al)
  case Nil
  show ?case by simp
next
  case (Cons e al)
  obtain k' v' where e: "e = (k', v')" by (cases e)
  show ?case
  proof (cases "k' = k")
    case True
    with Cons.prems e have "k \<notin> fst ` set al" by auto
    then have none: "map_of al k = None" by (simp add: map_of_eq_None_iff)
    have "sum_list (map (\<lambda>e. if fst e = k \<and> Q (snd e) then 1 else 0) al) = (0::nat)"
      using Cons.IH Cons.prems none by simp
    with True e show ?thesis by simp
  next
    case False
    with Cons e show ?thesis by simp
  qed
qed

lemma evilTwin_count:
  "length (filter (\<lambda>a. Type a = ''EVIL_TWIN'' \<and> Target a = ssid) (evilTwin now e)) =
     (if fst e = ssid \<and> 1 < length (snd e) then 1 else 0)"
  by (cases e) (simp add: evilTwin_def)

lemma rogueAP_not_evil:
  "filter (\<lambda>a. Type a = ''EVIL_TWIN'' \<and> Target a = ssid)
     (concat (map (rogueAP lower now) devices)) = []"
  by (induction devices) (simp_all add: rogueAP_def)

lemma weakEncryption_not_evil:
  "filter (\<lambda>a. Type a = ''EVIL_TWIN'' \<and> Target a = ssid)
     (concat (map (weakEncryption lower now) devices)) = []"
  by (induction devices) (simp_all add: weakEncryption_def)

lemma evil_twin_findings:
  "length (filter (\<lambda>a. Type a = ''EVIL_TWIN'' \<and> Target a = ssid)
             (DetectWiFiAttacks lower order now devices)) =
     (if ssid \<noteq> [] \<and> ssid \<noteq> ''Hidden'' \<and> 2 \<le> length (filter (\<lambda>d. ESSID d = ssid) devices)
      then 1 else 0)"
proof -
  let ?al = "ssidCounts devices []"
  let ?valid = "\<lambda>d. ESSID d \<noteq> [] \<and> ESSID d \<noteq> ''Hidden'' \<and> ESSID d = ssid"
  have dist: "distinct (map fst ?al)"
    by (rule distinct_ssidCounts) simp
  have "length (filter (\<lambda>a. Type a = ''EVIL_TWIN'' \<and> Target a = ssid)
             (DetectWiFiAttacks lower order now devices)) =
        sum_list (map (\<lambda>e. if fst e = ssid \<and> 1 < length (snd e) then 1 else 0)
          (sort_key (\<lambda>entry. order 0 (fst entry)) ?al))"
    by (simp add: DetectWiFiAttacks_def rogueAP_not_evil weakEncryption_not_evil
          length_filter_concat evilTwin_count)
  also have "\<dots> = sum_list (map (\<lambda>e. if fst e = ssid \<and> 1 < length (snd e) then 1 else 0) ?al)"
    by (rule sum_list_sort_key)
  also have "\<dots> = (case map_of ?al ssid of None \<Rightarrow> 0 | Some v \<Rightarrow> if 1 < length v then 1 else 0)"
    by (rule count_entry [OF dist])
  also have "\<dots> = (if 2 \<le> length (filter ?valid devices) then 1 else 0)"
    by (auto simp: map_of_ssidCounts)
  also have "\<dots> = (if ssid \<noteq> [] \<and> ssid \<noteq> ''Hidden'' \<and>
                      2 \<le> length (filter (\<lambda>d. ESSID d = ssid) devices) then 1 else 0)"
  proof (cases "ssid \<noteq> [] \<and> ssid \<noteq> ''Hidden''")
    case True
    then have "filter ?valid devices = filter (\<lambda>d. ESSID d = ssid) devices"
      by (intro filter_cong) auto
    with True show ?thesis by simp
  next
    case False
    then have "filter ?valid devices = []"
      by (auto simp: filter_empty_conv)
    with False show ?thesis by auto
  qed
  finally show ?thesis .
qed

lemma evilTwin_high: "a \<in> set (evilTwin now e) \<Longrightarrow> Severity a = ''High''"
  by (cases e) (simp add: evilTwin_def split: if_splits)

lemma rogueAP_high: "a \<in> set (rogueAP lower now d) \<Longrightarrow> Severity a = ''High''"
  by (simp add: rogueAP_def split: if_splits)

lemma weakEncryption_high: "a \<in> set (weakEncryption lower now d) \<Longrightarrow> Severity a = ''High''"
  by (simp add: weakEncryption_def split: if_splits)

lemma wifi_findings_high:
  assumes "a \<in> set (DetectWiFiAttacks lower order now devices)"
  shows "Severity a = ''High''"
proof -
  from assms consider
      e where "a \<in> set (evilTwin now e)"
    | d where "a \<in> set (rogueAP lower now d)"
    | d where "a \<in> set (weakEncryption lower now d)"
    unfolding DetectWiFiAttacks_def by auto
  then show ?thesis
    by cases (simp_all add: evilTwin_high rogueAP_high weakEncryption_high)
qed

lemma distinct_bssids:
  "distinct (map BSSID devices) \<Longrightarrow>
   card (set (map BSSID (filter (\<lambda>d. ESSID d = ssid) devices))) =
     length (filter (\<lambda>d. ESSID d = ssid) devices)"
  by (metis distinct_card distinct_map_filter length_map)

text \<open>
  C6, as stated, fails on a sample in which one access point is listed twice: the SSID
  Home then has a single BSSID, yet the heuristic reports an evil twin for it.
\<close>

theorem C6_evil_twin_counterexample:
  "set (map BSSID (filter (\<lambda>d. ESSID d = ''Home'')
          [\<lparr>BSSID = ''AA:AA'', PWR = - 40, Beacons = 10, ENC = ''WPA2'', ESSID = ''Home''\<rparr>,
           \<lparr>BSSID = ''AA:AA'', PWR = - 40, Beacons = 10, ENC = ''WPA2'', ESSID = ''Home''\<rparr>]))
     = {''AA:AA''} \<and>
   length (filter (\<lambda>a. Type a = ''EVIL_TWIN'' \<and> Target a = ''Home'')
     (DetectWiFiAttacks ToLowerASCII (\<lambda>n k. 0) 0
          [\<lparr>BSSID = ''AA:AA'', PWR = - 40, Beacons = 10, ENC = ''WPA2'', ESSID = ''Home''\<rparr>,
           \<lparr>BSSID = ''AA:AA'', PWR = - 40, Beacons = 10, ENC = ''WPA2'', ESSID = ''Home''\<rparr>]))
     = 1"
  by (simp add: evil_twin_findings)

text \<open>
  C6, amended. For every SSID the heuristic yields exactly one EVIL_TWIN finding, of
  severity High, when the SSID is neither empty nor "Hidden" and occurs in at least two
  access-point records of the sample, and none otherwise; whatever the order of the map
  iteration. Where the BSSIDs of the sample are pairwise different, the number of records
  of an SSID is its number of distinct BSSIDs.
\<close>

theorem C6_evil_twin:
  "length (filter (\<lambda>a. Type a = ''EVIL_TWIN'' \<and> Target a = ssid)
             (DetectWiFiAttacks lower order now devices)) =
     (if ssid \<noteq> [] \<and> ssid \<noteq> ''Hidden'' \<and> 2 \<le> length (filter (\<lambda>d. ESSID d = ssid) devices)
      then 1 else 0) \<and>
   (\<forall>a\<in>set (DetectWiFiAttacks lower order now devices).
      Type a = ''EVIL_TWIN'' \<longrightarrow> Severity a = ''High'') \<and>
   (distinct (map BSSID devices) \<longrightarrow>
      length (filter (\<lambda>d. ESSID d = ssid) devices) =
        card (set (map BSSID (filter (\<lambda>d. ESSID d = ssid) devices))))"
  using evil_twin_findings [of ssid lower order now devices]
    wifi_findings_high [of _ lower order now devices]
    distinct_bssids [of devices ssid]
  by auto

text \<open>
  C6 (amended) on the sample of the design: two access points named Home, one named Office. One
  EVIL_TWIN finding for Home, none for Office.
\<close>

theorem C6_evil_twin_witness:
  "distinct (map BSSID
      [\<lparr>BSSID = ''AA:AA'', PWR = - 40, Beacons = 10, ENC = ''WPA2'', ESSID = ''Home''\<rparr>,
       \<lparr>BSSID = ''BB:BB'', PWR = - 52, Beacons = 7, ENC = ''WPA2'', ESSID = ''Home''\<rparr>,
       \<lparr>BSSID = ''CC:CC'', PWR = - 60, Beacons = 3, ENC = ''WPA2'', ESSID = ''Office''\<rparr>]) \<and>
   length (filter (\<lambda>a. Type a = ''EVIL_TWIN'' \<and> Target a = ''Home'')
     (DetectWiFiAttacks ToLowerASCII (\<lambda>n k. 0) 0
      [\<lparr>BSSID = ''AA:AA'', PWR = - 40, Beacons = 10, ENC = ''WPA2'', ESSID = ''Home''\<rparr>,
       \<lparr>BSSID = ''BB:BB'', PWR = - 52, Beacons = 7, ENC = ''WPA2'', ESSID = ''Home''\<rparr>,
       \<lparr>BSSID = ''CC:CC'', PWR = - 60, Beacons = 3, ENC = ''WPA2'', ESSID = ''Office''\<rparr>])) = 1 \<and>
   length (filter (\<lambda>a. Type a = ''EVIL_TWIN'' \<and> Target a = ''Office'')
     (DetectWiFiAttacks ToLowerASCII (\<lambda>n k. 0) 0
      [\<lparr>BSSID = ''AA:AA'', PWR = - 40, Beacons = 10, ENC = ''WPA2'', ESSID = ''Home''\<rparr>,
       \<lparr>BSSID = ''BB:BB'', PWR = - 52, Beacons = 7, ENC = ''WPA2'', ESSID = ''Home''\<rparr>,
       \<lparr>BSSID = ''CC:CC'', PWR = - 60, Beacons = 3, ENC = ''WPA2'', ESSID = ''Office''\<rparr>])) = 0 \<and>
   card (set (map BSSID (filter (\<lambda>d. ESSID d = ''Home'')
      [\<lparr>BSSID = ''AA:AA'', PWR = - 40, Beacons = 10, ENC = ''WPA2'', ESSID = ''Home''\<rparr>,
       \<lparr>BSSID = ''BB:BB'', PWR = - 52, Beacons = 7, ENC = ''WPA2'', ESSID = ''Home''\<rparr>,
       \<lparr>BSSID = ''CC:CC'', PWR = - 60, Beacons = 3, ENC = ''WPA2'', ESSID = ''Office''\<rparr>]))) = 2"
proof -
  let ?aps = "[\<lparr>BSSID = ''AA:AA'', PWR = - 40, Beacons = 10, ENC = ''WPA2'', ESSID = ''Home''\<rparr>,
       \<lparr>BSSID = ''BB:BB'', PWR = - 52, Beacons = 7, ENC = ''WPA2'', ESSID = ''Home''\<rparr>,
       \<lparr>BSSID = ''CC:CC'', PWR = - 60, Beacons = 3, ENC = ''WPA2'', ESSID = ''Office''\<rparr>]"
  have d: "distinct (map BSSID ?aps)" by simp
  have home: "length (filter (\<lambda>d. ESSID d = ''Home'') ?aps) = 2" by simp
  have office: "length (filter (\<lambda>d. ESSID d = ''Office'') ?aps) = 1" by simp
  note h = C6_evil_twin [of "''Home''" ToLowerASCII "\<lambda>n k. 0" 0 ?aps]
  note o = C6_evil_twin [of "''Office''" ToLowerASCII "\<lambda>n k. 0" 0 ?aps]
  have c1: "length (filter (\<lambda>a. Type a = ''EVIL_TWIN'' \<and> Target a = ''Home'')
     (DetectWiFiAttacks ToLowerASCII (\<lambda>n k. 0) 0 ?aps)) = 1"
    using h [THEN conjunct1] home by simp
  have c2: "length (filter (\<lambda>a. Type a = ''EVIL_TWIN'' \<and> Target a = ''Office'')
     (DetectWiFiAttacks ToLowerASCII (\<lambda>n k. 0) 0 ?aps)) = 0"
    using o [THEN conjunct1] office by simp
  have c3: "card (set (map BSSID (filter (\<lambda>d. ESSID d = ''Home'') ?aps))) = 2"
    using h [THEN conjunct2, THEN conjunct2, rule_format, OF d] home by (simp only:)
  from d c1 c2 c3 show ?thesis by (intro conjI)
qed

lemma wifi_example_findings:
  "DetectWiFiAttacks ToLowerASCII (\<lambda>n k. 0) 0
      [\<lparr>BSSID = ''AA:AA'', PWR = - 40, Beacons = 10, ENC = ''WPA2'', ESSID = ''Home''\<rparr>,
       \<lparr>BSSID = ''BB:BB'', PWR = - 52, Beacons = 7, ENC = ''WPA2'', ESSID = ''Home''\<rparr>,
       \<lparr>BSSID = ''CC:CC'', PWR = - 60, Beacons = 3, ENC = ''WPA2'', ESSID = ''Office''\<rparr>]
   = [\<lparr>Type = ''EVIL_TWIN'', Severity = ''High'',
       Description = ''Potential evil twin attack: SSID 'Home' appears 2 times'',
       Target = ''Home'', Timestamp = 0\<rparr>]"
  by (simp add: DetectWiFiAttacks_def evilTwin_def rogueAP_def weakEncryption_def
        roguePatterns_def ToLowerASCII_def itoa.simps)

lemma mset_concat_sort_key:
  "mset (concat (map g (sort_key f xs))) = mset (concat (map g xs))"
  by (simp add: mset_concat comp_def sum_list_sort_key [of "\<lambda>x. mset (g x)"])

lemma strip_evilTwin: "map (\<lambda>a. a\<lparr>Timestamp := 0\<rparr>) (evilTwin now e) = evilTwin 0 e"
  by (cases e) (simp add: evilTwin_def)

lemma strip_rogueAP: "map (\<lambda>a. a\<lparr>Timestamp := 0\<rparr>) (rogueAP lower now d) = rogueAP lower 0 d"
  by (simp add: rogueAP_def)

lemma strip_weakEncryption:
  "map (\<lambda>a. a\<lparr>Timestamp := 0\<rparr>) (weakEncryption lower now d) = weakEncryption lower 0 d"
  by (simp add: weakEncryption_def)

lemma strip_massScanning:
  "map (\<lambda>a. a\<lparr>Timestamp := 0\<rparr>) (massScanning now ds) = massScanning 0 ds"
  by (simp add: massScanning_def)

lemma strip_spoofing:
  "map (\<lambda>a. a\<lparr>Timestamp := 0\<rparr>) (spoofing lower now d) = spoofing lower 0 d"
  by (simp add: spoofing_def)

lemma strip_mitm:
  "map (\<lambda>a. a\<lparr>Timestamp := 0\<rparr>) (mitm lower rank now d) = mitm lower rank 0 d"
  by (simp add: mitm_def split: option.splits prod.splits)

lemma strip_suspiciousPort:
  "map (\<lambda>a. a\<lparr>Timestamp := 0\<rparr>) (suspiciousPort now out e) = suspiciousPort 0 out e"
  by (cases e) (simp add: suspiciousPort_def)

lemma map_concat_map: "map f (concat (map g xs)) = concat (map (\<lambda>x. map f (g x)) xs)"
  by (induction xs) simp_all

lemma strip_DetectWiFiAttacks:
  "map (\<lambda>a. a\<lparr>Timestamp := 0\<rparr>) (DetectWiFiAttacks lower order now devices) =
     DetectWiFiAttacks lower order 0 devices"
  by (simp add: DetectWiFiAttacks_def map_concat_map strip_evilTwin strip_rogueAP
        strip_weakEncryption)

lemma strip_DetectBluetoothAttacks:
  "map (\<lambda>a. a\<lparr>Timestamp := 0\<rparr>) (DetectBluetoothAttacks lower order now devices) =
     DetectBluetoothAttacks lower order 0 devices"
  by (simp add: DetectBluetoothAttacks_def map_concat_map strip_massScanning strip_spoofing
        strip_mitm split_def)

lemma wifi_order_irrelevant:
  "mset (DetectWiFiAttacks lower order now devices) =
   mset (DetectWiFiAttacks lower order' now devices)"
  by (simp add: DetectWiFiAttacks_def mset_concat_sort_key)

lemma find_SomeD: "find P xs = Some x \<Longrightarrow> x \<in> set xs \<and> P x"
  by (induction xs) (auto split: if_splits)

lemma find_NoneD: "find P xs = None \<Longrightarrow> x \<in> set xs \<Longrightarrow> \<not> P x"
  by (induction xs) (auto split: if_splits)

lemma mitm_kind:
  "map (\<lambda>a. (Type a, Severity a, Target a)) (mitm lower rank now d) =
     (if \<exists>e\<in>set mitmPatterns. Contains (lower (Name d)) (fst e)
      then [(''BLUETOOTH_MITM'', ''High'', Address d)] else [])"
proof (cases "find (\<lambda>entry. Contains (lower (Name d)) (fst entry))
               (sort_key (\<lambda>entry. rank (fst entry)) mitmPatterns)")
  case None
  have "\<not> (\<exists>e\<in>set mitmPatterns. Contains (lower (Name d)) (fst e))"
  proof
    assume "\<exists>e\<in>set mitmPatterns. Contains (lower (Name d)) (fst e)"
    then obtain e where e: "e \<in> set mitmPatterns" "Contains (lower (Name d)) (fst e)"
      by blast
    from e(1) have "e \<in> set (sort_key (\<lambda>entry. rank (fst entry)) mitmPatterns)"
      by (simp only: set_sort)
    from find_NoneD [OF None this] e(2) show False by simp
  qed
  with None show ?thesis by (simp only: mitm_def option.case if_False list.map)
next
  case (Some e)
  from find_SomeD [OF Some] have "e \<in> set mitmPatterns" "Contains (lower (Name d)) (fst e)"
    by (simp_all only: set_sort)
  then have ex: "\<exists>e\<in>set mitmPatterns. Contains (lower (Name d)) (fst e)" by blast
  obtain p ds where "e = (p, ds)" by (cases e)
  with Some ex show ?thesis by (simp add: mitm_def)
qed

lemma bluetooth_kind_order_irrelevant:
  "map (\<lambda>a. (Type a, Severity a, Target a)) (DetectBluetoothAttacks lower order now devices) =
   map (\<lambda>a. (Type a, Severity a, Target a)) (DetectBluetoothAttacks lower order' now' devices)"
proof -
  have m: "map (\<lambda>a. (Type a, Severity a, Target a)) (massScanning now devices) =
           map (\<lambda>a. (Type a, Severity a, Target a)) (massScanning now' devices)"
    by (simp add: massScanning_def)
  have s: "\<And>d. map (\<lambda>a. (Type a, Severity a, Target a)) (spoofing lower now d) =
           map (\<lambda>a. (Type a, Severity a, Target a)) (spoofing lower now' d)"
    by (simp add: spoofing_def)
  show ?thesis
    by (simp add: DetectBluetoothAttacks_def map_concat_map m s mitm_kind split_def)
qed

lemma strip_network:
  "map (\<lambda>a. a\<lparr>Timestamp := 0\<rparr>) (fst (DetectNetworkAttacks h w order)) =
     (case LookPath h w ''nmap'' of
        None \<Rightarrow> []
      | Some path \<Rightarrow>
          (case fst (Exec h w CombinedOutput
                       [''nmap'', ''-p'', ''21,23,3389,445'', ''--open'', ''192.168.1.0/24'']) of
             (output, Some e) \<Rightarrow> []
           | (output, None) \<Rightarrow>
               concat (map (suspiciousPort 0 output)
                         (sort_key (\<lambda>entry. order 0 (fst entry)) dangerousPorts))))"
  by (simp add: DetectNetworkAttacks_def map_concat_map strip_suspiciousPort
        split: option.splits prod.splits)

lemma network_findings:
  "mset (map (\<lambda>a. a\<lparr>Timestamp := 0\<rparr>) (fst (DetectNetworkAttacks h w order))) =
     (case LookPath h w ''nmap'' of
        None \<Rightarrow> {#}
      | Some path \<Rightarrow>
          (case fst (Exec h w CombinedOutput
                       [''nmap'', ''-p'', ''21,23,3389,445'', ''--open'', ''192.168.1.0/24'']) of
             (output, Some e) \<Rightarrow> {#}
           | (output, None) \<Rightarrow> mset (concat (map (suspiciousPort 0 output) dangerousPorts))))"
  unfolding strip_network
  by (simp add: mset_concat_sort_key split: option.splits prod.splits)

lemma untimed_DetectWiFiAttacks:
  "untimed (DetectWiFiAttacks lower order now devices) = DetectWiFiAttacks lower order 0 devices"
  unfolding untimed_def by (rule strip_DetectWiFiAttacks)

lemma untimed_DetectBluetoothAttacks:
  "untimed (DetectBluetoothAttacks lower order now devices) =
     DetectBluetoothAttacks lower order 0 devices"
  unfolding untimed_def by (rule strip_DetectBluetoothAttacks)

lemma evilTwin_only:
  "filter (\<lambda>a. Type a = ''EVIL_TWIN'') (evilTwin now e) = evilTwin now e"
  by (cases e) (simp add: evilTwin_def)

lemma rogueAP_none: "filter (\<lambda>a. Type a = ''EVIL_TWIN'') (rogueAP lower now d) = []"
  by (simp add: rogueAP_def)

lemma weakEncryption_none:
  "filter (\<lambda>a. Type a = ''EVIL_TWIN'') (weakEncryption lower now d) = []"
  by (simp add: weakEncryption_def)

lemma filter_concat_all:
  "(\<And>x. filter P (g x) = g x) \<Longrightarrow> filter P (concat (map g xs)) = concat (map g xs)"
  by (induction xs) simp_all

lemma filter_concat_none:
  "(\<And>x. filter P (g x) = []) \<Longrightarrow> filter P (concat (map g xs)) = []"
  by (induction xs) simp_all

lemma filter_not_all: "filter P xs = xs \<Longrightarrow> filter (\<lambda>a. \<not> P a) xs = []"
  by (simp add: filter_id_conv filter_empty_conv)

lemma filter_not_none: "filter P xs = [] \<Longrightarrow> filter (\<lambda>a. \<not> P a) xs = xs"
  by (simp add: filter_id_conv filter_empty_conv)

lemma wifi_evil_twins:
  "filter (\<lambda>a. Type a = ''EVIL_TWIN'') (DetectWiFiAttacks lower order now devices) =
     concat (map (evilTwin now)
       (sort_key (\<lambda>entry. order 0 (fst entry)) (ssidCounts devices [])))"
  unfolding DetectWiFiAttacks_def filter_append
  by (simp only: filter_concat_all [of _ "evilTwin now", OF evilTwin_only]
        filter_concat_none [of _ "rogueAP lower now", OF rogueAP_none]
        filter_concat_none [of _ "weakEncryption lower now", OF weakEncryption_none]
        append_Nil2)

lemma wifi_others:
  "filter (\<lambda>a. Type a \<noteq> ''EVIL_TWIN'') (DetectWiFiAttacks lower order now devices) =
     concat (map (rogueAP lower now) devices) @ concat (map (weakEncryption lower now) devices)"
  unfolding DetectWiFiAttacks_def filter_append
  by (simp only: filter_not_all [OF filter_concat_all [of _ "evilTwin now", OF evilTwin_only]]
        filter_not_none [OF filter_concat_none [of _ "rogueAP lower now", OF rogueAP_none]]
        filter_not_none [OF filter_concat_none [of _ "weakEncryption lower now",
            OF weakEncryption_none]]
        append_Nil)

lemma wifi_evil_twins_first:
  "DetectWiFiAttacks lower order now devices =
     filter (\<lambda>a. Type a = ''EVIL_TWIN'') (DetectWiFiAttacks lower order now devices) @
     filter (\<lambda>a. Type a \<noteq> ''EVIL_TWIN'') (DetectWiFiAttacks lower order now devices)"
  unfolding wifi_evil_twins wifi_others by (simp add: DetectWiFiAttacks_def)

lemma wifi_evil_twins_mset:
  "mset (filter (\<lambda>a. Type a = ''EVIL_TWIN'') (DetectWiFiAttacks lower order now devices)) =
   mset (filter (\<lambda>a. Type a = ''EVIL_TWIN'') (DetectWiFiAttacks lower order' now devices))"
  unfolding wifi_evil_twins by (simp only: mset_concat_sort_key)

lemma wifi_others_same:
  "filter (\<lambda>a. Type a \<noteq> ''EVIL_TWIN'') (DetectWiFiAttacks lower order now devices) =
   filter (\<lambda>a. Type a \<noteq> ''EVIL_TWIN'') (DetectWiFiAttacks lower order' now devices)"
  unfolding wifi_others ..

lemma massScanning_not_mitm:
  "filter (\<lambda>a. Type a = ''BLUETOOTH_MITM'') (massScanning now ds) = []"
  by (simp add: massScanning_def)

lemma spoofing_not_mitm:
  "filter (\<lambda>a. Type a = ''BLUETOOTH_MITM'') (spoofing lower now d) = []"
  by (simp add: spoofing_def)

lemma mitm_only:
  "filter (\<lambda>a. Type a = ''BLUETOOTH_MITM'') (mitm lower rank now d) = mitm lower rank now d"
  by (simp add: mitm_def split: option.splits prod.splits)

lemma mitm_enum_only:
  "filter (\<lambda>a. Type a = ''BLUETOOTH_MITM'')
     (concat (map (\<lambda>(i, device). mitm lower (order i) now device) xs)) =
   concat (map (\<lambda>(i, device). mitm lower (order i) now device) xs)"
  by (rule filter_concat_all) (simp add: split_def mitm_only)

lemma bluetooth_others:
  "filter (\<lambda>a. Type a \<noteq> ''BLUETOOTH_MITM'') (DetectBluetoothAttacks lower order now devices) =
     massScanning now devices @ concat (map (spoofing lower now) devices)"
  unfolding DetectBluetoothAttacks_def filter_append
  by (simp only: filter_not_none [OF massScanning_not_mitm]
        filter_not_none [OF filter_concat_none [of _ "spoofing lower now", OF spoofing_not_mitm]]
        filter_not_all [OF mitm_enum_only] append_Nil2)

lemma bluetooth_others_same:
  "filter (\<lambda>a. Type a \<noteq> ''BLUETOOTH_MITM'') (DetectBluetoothAttacks lower order now devices) =
   filter (\<lambda>a. Type a \<noteq> ''BLUETOOTH_MITM'') (DetectBluetoothAttacks lower order' now devices)"
  unfolding bluetooth_others ..

lemma mitm_names_pattern:
  assumes "a \<in> set (mitm lower rank now d)"
  shows "\<exists>e\<in>set mitmPatterns. Contains (lower (Name d)) (fst e) \<and>
           a = \<lparr>Type = ''BLUETOOTH_MITM'', Severity = ''High'',
                 Description = ''Potential Man-in-the-Middle device: '' @ Name d @ '' ('' @
                   Address d @ '') - appears to be '' @ snd e,
                 Target = Address d, Timestamp = now\<rparr>"
proof (cases "find (\<lambda>entry. Contains (lower (Name d)) (fst entry))
               (sort_key (\<lambda>entry. rank (fst entry)) mitmPatterns)")
  case None
  with assms show ?thesis by (simp add: mitm_def)
next
  case (Some e)
  from find_SomeD [OF Some] have e: "e \<in> set mitmPatterns" "Contains (lower (Name d)) (fst e)"
    by (simp_all only: set_sort)
  obtain p ds where pd: "e = (p, ds)" by (cases e)
  from assms Some pd have "a = \<lparr>Type = ''BLUETOOTH_MITM'', Severity = ''High'',
                 Description = ''Potential Man-in-the-Middle device: '' @ Name d @ '' ('' @
                   Address d @ '') - appears to be '' @ snd e,
                 Target = Address d, Timestamp = now\<rparr>"
    by (simp add: mitm_def)
  with e show ?thesis by (intro bexI [of _ e] conjI)
qed

lemma bluetooth_mitm_findings:
  assumes "a \<in> set (DetectBluetoothAttacks lower order now devices)"
    and "Type a = ''BLUETOOTH_MITM''"
  shows "\<exists>d\<in>set devices. \<exists>e\<in>set mitmPatterns. Contains (lower (Name d)) (fst e) \<and>
           a = \<lparr>Type = ''BLUETOOTH_MITM'', Severity = ''High'',
                 Description = ''Potential Man-in-the-Middle device: '' @ Name d @ '' ('' @
                   Address d @ '') - appears to be '' @ snd e,
                 Target = Address d, Timestamp = now\<rparr>"
proof -
  from assms(1) consider
      "a \<in> set (massScanning now devices)"
    | d where "a \<in> set (spoofing lower now d)"
    | i d where "(i, d) \<in> set (enumerate 0 devices)" "a \<in> set (mitm lower (order i) now d)"
    unfolding DetectBluetoothAttacks_def by auto
  then show ?thesis
  proof cases
    case 1
    with assms(2) show ?thesis by (simp add: massScanning_def split: if_splits)
  next
    case 2
    with assms(2) show ?thesis by (simp add: spoofing_def split: if_splits)
  next
    case 3
    from 3(1) have "d \<in> set devices" by (auto simp: in_set_enumerate_eq)
    with mitm_names_pattern [OF 3(2)] show ?thesis by (intro bexI [of _ d])
  qed
qed

lemma mitm_single_pattern:
  assumes one: "\<forall>e\<in>set mitmPatterns. \<forall>e'\<in>set mitmPatterns.
      Contains (lower (Name d)) (fst e) \<and> Contains (lower (Name d)) (fst e') \<longrightarrow> e = e'"
  shows "mitm lower rank now d = mitm lower rank' now d"
proof -
  let ?P = "\<lambda>entry. Contains (lower (Name d)) (fst entry)"
  let ?f = "find ?P (sort_key (\<lambda>entry. rank (fst entry)) mitmPatterns)"
  let ?f' = "find ?P (sort_key (\<lambda>entry. rank' (fst entry)) mitmPatterns)"
  have "?f = ?f'"
  proof (cases ?f)
    case None
    show ?thesis
    proof (cases ?f')
      case None': None
      with None show ?thesis by (simp only:)
    next
      case (Some e')
      from find_SomeD [OF Some] have "e' \<in> set (sort_key (\<lambda>entry. rank (fst entry)) mitmPatterns)"
        "?P e'" by (simp_all only: set_sort)
      with find_NoneD [OF None] show ?thesis by blast
    qed
  next
    case (Some e)
    from find_SomeD [OF Some] have e: "e \<in> set mitmPatterns" "?P e"
      by (simp_all only: set_sort)
    show ?thesis
    proof (cases ?f')
      case None
      from e(1) have "e \<in> set (sort_key (\<lambda>entry. rank' (fst entry)) mitmPatterns)"
        by (simp only: set_sort)
      with find_NoneD [OF None] e(2) show ?thesis by blast
    next
      case Some': (Some e')
      from find_SomeD [OF Some'] have e': "e' \<in> set mitmPatterns" "?P e'"
        by (simp_all only: set_sort)
      from one [rule_format, OF e(1) e'(1)] e(2) e'(2) have "e = e'" by (simp only:)
      with Some Some' show ?thesis by (simp only:)
    qed
  qed
  then show ?thesis by (simp only: mitm_def)
qed

lemma bluetooth_single_pattern:
  assumes "\<forall>d\<in>set devices. \<forall>e\<in>set mitmPatterns. \<forall>e'\<in>set mitmPatterns.
      Contains (lower (Name d)) (fst e) \<and> Contains (lower (Name d)) (fst e') \<longrightarrow> e = e'"
  shows "DetectBluetoothAttacks lower order now devices =
         DetectBluetoothAttacks lower order' now devices"
proof -
  have "map (\<lambda>(i, device). mitm lower (order i) now device) (enumerate 0 devices) =
        map (\<lambda>(i, device). mitm lower (order' i) now device) (enumerate 0 devices)"
  proof (rule map_cong [OF refl])
    fix x assume x: "x \<in> set (enumerate 0 devices)"
    obtain i d where id: "x = (i, d)" by (cases x)
    with x have "d \<in> set devices" by (auto simp: in_set_enumerate_eq)
    with assms have "\<forall>e\<in>set mitmPatterns. \<forall>e'\<in>set mitmPatterns.
      Contains (lower (Name d)) (fst e) \<and> Contains (lower (Name d)) (fst e') \<longrightarrow> e = e'"
      by (rule bspec)
    from mitm_single_pattern [where lower = lower and d = d and rank = "order i"
        and rank' = "order' i" and now = now, OF this] id
    show "(case x of (i, device) \<Rightarrow> mitm lower (order i) now device) =
          (case x of (i, device) \<Rightarrow> mitm lower (order' i) now device)"
      by (simp only: prod.case)
  qed
  then show ?thesis by (simp only: DetectBluetoothAttacks_def)
qed

lemma network_runs_nmap:
  "snd (DetectNetworkAttacks h w order) =
     (case LookPath h w ''nmap'' of
        None \<Rightarrow> w
      | Some path \<Rightarrow>
          snd (Exec h w CombinedOutput
                 [''nmap'', ''-p'', ''21,23,3389,445'', ''--open'', ''192.168.1.0/24'']))"
  by (simp add: DetectNetworkAttacks_def split: option.splits prod.splits)


text \<open>
  C5, as stated, fails in two ways. The network heuristic has no sample set to depend
  on, and its findings follow the host: without nmap it returns nothing and runs nothing;
  with nmap reporting an open FTP port it runs the scan and returns a SUSPICIOUS_PORT
  finding. And the findings of the other two are not determined by the sample, since
  they range over Go maps: on a sample with two duplicated SSIDs the two EVIL_TWIN
  findings come in either order, and for a Bluetooth device whose name contains two MITM
  patterns the finding names one pattern or the other in its description.
\<close>

theorem C5_heuristics_counterexample:
  "DetectNetworkAttacks host_bare 0 (\<lambda>n k. 0) = ([], 0) \<and>
   map (\<lambda>a. (Type a, Severity a, Target a)) (fst (DetectNetworkAttacks host_nmap 0 (\<lambda>n k. 0)))
     = [(''SUSPICIOUS_PORT'', ''Medium'', ''network'')] \<and>
   snd (DetectNetworkAttacks host_nmap 0 (\<lambda>n k. 0)) = 1 \<and>
   map Target (DetectWiFiAttacks ToLowerASCII (\<lambda>n k. 0) 0
      [\<lparr>BSSID = ''AA:AA'', PWR = - 40, Beacons = 10, ENC = ''WPA2'', ESSID = ''Home''\<rparr>,
       \<lparr>BSSID = ''BB:BB'', PWR = - 52, Beacons = 7, ENC = ''WPA2'', ESSID = ''Home''\<rparr>,
       \<lparr>BSSID = ''CC:CC'', PWR = - 60, Beacons = 3, ENC = ''WPA2'', ESSID = ''Cafe''\<rparr>,
       \<lparr>BSSID = ''DD:DD'', PWR = - 61, Beacons = 2, ENC = ''WPA2'', ESSID = ''Cafe''\<rparr>])
     = [''Home'', ''Cafe''] \<and>
   map Target (DetectWiFiAttacks ToLowerASCII (\<lambda>n k. if k = ''Home'' then 1 else 0) 0
      [\<lparr>BSSID = ''AA:AA'', PWR = - 40, Beacons = 10, ENC = ''WPA2'', ESSID = ''Home''\<rparr>,
       \<lparr>BSSID = ''BB:BB'', PWR = - 52, Beacons = 7, ENC = ''WPA2'', ESSID = ''Home''\<rparr>,
       \<lparr>BSSID = ''CC:CC'', PWR = - 60, Beacons = 3, ENC = ''WPA2'', ESSID = ''Cafe''\<rparr>,
       \<lparr>BSSID = ''DD:DD'', PWR = - 61, Beacons = 2, ENC = ''WPA2'', ESSID = ''Cafe''\<rparr>])
     = [''Cafe'', ''Home''] \<and>
   map Description (DetectBluetoothAttacks ToLowerASCII (\<lambda>i k. 0) 0
      [\<lparr>Address = ''AA:BB'', Name = ''Proxy-Gateway''\<rparr>])
     = [''Potential Man-in-the-Middle device: Proxy-Gateway (AA:BB) - appears to be proxy''] \<and>
   map Description (DetectBluetoothAttacks ToLowerASCII (\<lambda>i k. if k = ''proxy'' then 1 else 0) 0
      [\<lparr>Address = ''AA:BB'', Name = ''Proxy-Gateway''\<rparr>])
     = [''Potential Man-in-the-Middle device: Proxy-Gateway (AA:BB) - appears to be gateway'']"
proof -
  have n: "DetectNetworkAttacks host_bare 0 (\<lambda>n k. 0) = ([], 0) \<and>
   map (\<lambda>a. (Type a, Severity a, Target a)) (fst (DetectNetworkAttacks host_nmap 0 (\<lambda>n k. 0)))
     = [(''SUSPICIOUS_PORT'', ''Medium'', ''network'')] \<and>
   snd (DetectNetworkAttacks host_nmap 0 (\<lambda>n k. 0)) = 1"
    by (simp add: DetectNetworkAttacks_def host_bare_def host_nmap_def dangerousPorts_def
        suspiciousPort_def)
  have w1: "map Target (DetectWiFiAttacks ToLowerASCII (\<lambda>n k. 0) 0
      [\<lparr>BSSID = ''AA:AA'', PWR = - 40, Beacons = 10, ENC = ''WPA2'', ESSID = ''Home''\<rparr>,
       \<lparr>BSSID = ''BB:BB'', PWR = - 52, Beacons = 7, ENC = ''WPA2'', ESSID = ''Home''\<rparr>,
       \<lparr>BSSID = ''CC:CC'', PWR = - 60, Beacons = 3, ENC = ''WPA2'', ESSID = ''Cafe''\<rparr>,
       \<lparr>BSSID = ''DD:DD'', PWR = - 61, Beacons = 2, ENC = ''WPA2'', ESSID = ''Cafe''\<rparr>])
     = [''Home'', ''Cafe'']"
    by (simp add: DetectWiFiAttacks_def evilTwin_def rogueAP_def weakEncryption_def
        roguePatterns_def ToLowerASCII_def)
  have w2: "map Target (DetectWiFiAttacks ToLowerASCII (\<lambda>n k. if k = ''Home'' then 1 else 0) 0
      [\<lparr>BSSID = ''AA:AA'', PWR = - 40, Beacons = 10, ENC = ''WPA2'', ESSID = ''Home''\<rparr>,
       \<lparr>BSSID = ''BB:BB'', PWR = - 52, Beacons = 7, ENC = ''WPA2'', ESSID = ''Home''\<rparr>,
       \<lparr>BSSID = ''CC:CC'', PWR = - 60, Beacons = 3, ENC = ''WPA2'', ESSID = ''Cafe''\<rparr>,
       \<lparr>BSSID = ''DD:DD'', PWR = - 61, Beacons = 2, ENC = ''WPA2'', ESSID = ''Cafe''\<rparr>])
     = [''Cafe'', ''Home'']"
    by (simp add: DetectWiFiAttacks_def evilTwin_def rogueAP_def weakEncryption_def
        roguePatterns_def ToLowerASCII_def)
  have b1: "map Description (DetectBluetoothAttacks ToLowerASCII (\<lambda>i k. 0) 0
      [\<lparr>Address = ''AA:BB'', Name = ''Proxy-Gateway''\<rparr>])
     = [''Potential Man-in-the-Middle device: Proxy-Gateway (AA:BB) - appears to be proxy'']"
    by (simp add: DetectBluetoothAttacks_def massScanning_def spoofing_def mitm_def
        suspiciousNames_def mitmPatterns_def ToLowerASCII_def)
  have b2: "map Description (DetectBluetoothAttacks ToLowerASCII
        (\<lambda>i k. if k = ''proxy'' then 1 else 0) 0
      [\<lparr>Address = ''AA:BB'', Name = ''Proxy-Gateway''\<rparr>])
     = [''Potential Man-in-the-Middle device: Proxy-Gateway (AA:BB) - appears to be gateway'']"
    by (simp add: DetectBluetoothAttacks_def massScanning_def spoofing_def mitm_def
        suspiciousNames_def mitmPatterns_def ToLowerASCII_def)
  from n w1 w2 b1 b2 show ?thesis by (simp only: simp_thms)
qed

text \<open>
  C5, amended. A call of \<open>DetectWiFiAttacks\<close> or \<open>DetectBluetoothAttacks\<close> leaves the
  package variables and the state of the host as they were, and up to timestamps its
  findings are the same in every state of the host and of the package variables, given
  the sample and the order of the map iterations. Across iteration orders:
  \<^item> Wi-Fi: the EVIL_TWIN findings come first and are the same up to their order; the
    other findings are the same sequence; so the findings are the same up to order.
  \<^item> Bluetooth: types, severities and targets are the same sequence; the findings other
    than BLUETOOTH_MITM are the same sequence; every BLUETOOTH_MITM finding is the one
    of a device of the sample and of a pattern that its lowered name contains, named in
    the description; and when no name contains two patterns, the findings are the same
    sequence.

  \<open>DetectNetworkAttacks\<close> runs nmap exactly when it finds it on the host; two runs that
  find nmap alike and get the same output and error from it yield the same findings up
  to timestamps, in the same sequence under the same iteration order and up to order
  under different ones.
\<close>

theorem C5_heuristics_determinism:
  "snd (DetectWiFiAttacks_call h w g lower order aps) = (g, w) \<and>
   snd (DetectBluetoothAttacks_call h w g lower order bts) = (g, w) \<and>
   untimed (fst (DetectWiFiAttacks_call h w g lower order aps)) =
     untimed (fst (DetectWiFiAttacks_call h' w' g' lower order aps)) \<and>
   untimed (fst (DetectBluetoothAttacks_call h w g lower order bts)) =
     untimed (fst (DetectBluetoothAttacks_call h' w' g' lower order bts)) \<and>
   DetectWiFiAttacks lower order now aps =
     filter (\<lambda>a. Type a = ''EVIL_TWIN'') (DetectWiFiAttacks lower order now aps) @
     filter (\<lambda>a. Type a \<noteq> ''EVIL_TWIN'') (DetectWiFiAttacks lower order now aps) \<and>
   mset (filter (\<lambda>a. Type a = ''EVIL_TWIN'') (untimed (DetectWiFiAttacks lower order now aps))) =
     mset (filter (\<lambda>a. Type a = ''EVIL_TWIN'')
             (untimed (DetectWiFiAttacks lower order' now' aps))) \<and>
   filter (\<lambda>a. Type a \<noteq> ''EVIL_TWIN'') (untimed (DetectWiFiAttacks lower order now aps)) =
     filter (\<lambda>a. Type a \<noteq> ''EVIL_TWIN'') (untimed (DetectWiFiAttacks lower order' now' aps)) \<and>
   mset (untimed (DetectWiFiAttacks lower order now aps)) =
     mset (untimed (DetectWiFiAttacks lower order' now' aps)) \<and>
   untimed (DetectBluetoothAttacks lower order now bts) =
     untimed (DetectBluetoothAttacks lower order now' bts) \<and>
   map (\<lambda>a. (Type a, Severity a, Target a)) (DetectBluetoothAttacks lower order now bts) =
     map (\<lambda>a. (Type a, Severity a, Target a)) (DetectBluetoothAttacks lower order' now' bts) \<and>
   filter (\<lambda>a. Type a \<noteq> ''BLUETOOTH_MITM'')
       (untimed (DetectBluetoothAttacks lower order now bts)) =
     filter (\<lambda>a. Type a \<noteq> ''BLUETOOTH_MITM'')
       (untimed (DetectBluetoothAttacks lower order' now' bts)) \<and>
   (\<forall>a\<in>set (DetectBluetoothAttacks lower order now bts).
      Type a = ''BLUETOOTH_MITM'' \<longrightarrow>
      (\<exists>d\<in>set bts. \<exists>e\<in>set mitmPatterns.
         Contains (lower (Name d)) (fst e) \<and>
         a = \<lparr>Type = ''BLUETOOTH_MITM'', Severity = ''High'',
               Description = ''Potential Man-in-the-Middle device: '' @ Name d @ '' ('' @
                 Address d @ '') - appears to be '' @ snd e,
               Target = Address d, Timestamp = now\<rparr>)) \<and>
   ((\<forall>d\<in>set bts. \<forall>e\<in>set mitmPatterns. \<forall>e'\<in>set mitmPatterns.
       Contains (lower (Name d)) (fst e) \<and> Contains (lower (Name d)) (fst e') \<longrightarrow> e = e') \<longrightarrow>
      untimed (DetectBluetoothAttacks lower order now bts) =
        untimed (DetectBluetoothAttacks lower order' now' bts)) \<and>
   snd (DetectNetworkAttacks hn wn order) =
     (case LookPath hn wn ''nmap'' of
        None \<Rightarrow> wn
      | Some path \<Rightarrow>
          snd (Exec hn wn CombinedOutput
                 [''nmap'', ''-p'', ''21,23,3389,445'', ''--open'', ''192.168.1.0/24''])) \<and>
   ((LookPath hn wn ''nmap'' = None) = (LookPath hn' wn' ''nmap'' = None) \<and>
    fst (Exec hn wn CombinedOutput
           [''nmap'', ''-p'', ''21,23,3389,445'', ''--open'', ''192.168.1.0/24'']) =
    fst (Exec hn' wn' CombinedOutput
           [''nmap'', ''-p'', ''21,23,3389,445'', ''--open'', ''192.168.1.0/24'']) \<longrightarrow>
      untimed (fst (DetectNetworkAttacks hn wn order)) =
        untimed (fst (DetectNetworkAttacks hn' wn' order)) \<and>
      mset (untimed (fst (DetectNetworkAttacks hn wn order))) =
        mset (untimed (fst (DetectNetworkAttacks hn' wn' order'))))"
proof -
  have p1: "snd (DetectWiFiAttacks_call h w g lower order aps) = (g, w)"
    by (simp add: DetectWiFiAttacks_call_def)
  have p2: "snd (DetectBluetoothAttacks_call h w g lower order bts) = (g, w)"
    by (simp add: DetectBluetoothAttacks_call_def)
  have p3: "untimed (fst (DetectWiFiAttacks_call h w g lower order aps)) =
     untimed (fst (DetectWiFiAttacks_call h' w' g' lower order aps))"
    by (simp add: DetectWiFiAttacks_call_def untimed_DetectWiFiAttacks)
  have p4: "untimed (fst (DetectBluetoothAttacks_call h w g lower order bts)) =
     untimed (fst (DetectBluetoothAttacks_call h' w' g' lower order bts))"
    by (simp add: DetectBluetoothAttacks_call_def untimed_DetectBluetoothAttacks)
  have w1: "DetectWiFiAttacks lower order now aps =
     filter (\<lambda>a. Type a = ''EVIL_TWIN'') (DetectWiFiAttacks lower order now aps) @
     filter (\<lambda>a. Type a \<noteq> ''EVIL_TWIN'') (DetectWiFiAttacks lower order now aps)"
    by (rule wifi_evil_twins_first)
  have w2: "mset (filter (\<lambda>a. Type a = ''EVIL_TWIN'')
                   (untimed (DetectWiFiAttacks lower order now aps))) =
     mset (filter (\<lambda>a. Type a = ''EVIL_TWIN'')
             (untimed (DetectWiFiAttacks lower order' now' aps)))"
    unfolding untimed_DetectWiFiAttacks by (rule wifi_evil_twins_mset)
  have w3: "filter (\<lambda>a. Type a \<noteq> ''EVIL_TWIN'')
       (untimed (DetectWiFiAttacks lower order now aps)) =
     filter (\<lambda>a. Type a \<noteq> ''EVIL_TWIN'') (untimed (DetectWiFiAttacks lower order' now' aps))"
    unfolding untimed_DetectWiFiAttacks by (rule wifi_others_same)
  have w4: "mset (untimed (DetectWiFiAttacks lower order now aps)) =
     mset (untimed (DetectWiFiAttacks lower order' now' aps))"
    unfolding untimed_DetectWiFiAttacks by (rule wifi_order_irrelevant)
  have b1: "untimed (DetectBluetoothAttacks lower order now bts) =
     untimed (DetectBluetoothAttacks lower order now' bts)"
    by (simp only: untimed_DetectBluetoothAttacks)
  have b2: "map (\<lambda>a. (Type a, Severity a, Target a))
       (DetectBluetoothAttacks lower order now bts) =
     map (\<lambda>a. (Type a, Severity a, Target a)) (DetectBluetoothAttacks lower order' now' bts)"
    by (rule bluetooth_kind_order_irrelevant)
  have b3: "filter (\<lambda>a. Type a \<noteq> ''BLUETOOTH_MITM'')
       (untimed (DetectBluetoothAttacks lower order now bts)) =
     filter (\<lambda>a. Type a \<noteq> ''BLUETOOTH_MITM'')
       (untimed (DetectBluetoothAttacks lower order' now' bts))"
    unfolding untimed_DetectBluetoothAttacks by (rule bluetooth_others_same)
  have b4: "\<forall>a\<in>set (DetectBluetoothAttacks lower order now bts).
      Type a = ''BLUETOOTH_MITM'' \<longrightarrow>
      (\<exists>d\<in>set bts. \<exists>e\<in>set mitmPatterns.
         Contains (lower (Name d)) (fst e) \<and>
         a = \<lparr>Type = ''BLUETOOTH_MITM'', Severity = ''High'',
               Description = ''Potential Man-in-the-Middle device: '' @ Name d @ '' ('' @
                 Address d @ '') - appears to be '' @ snd e,
               Target = Address d, Timestamp = now\<rparr>)"
    by (intro ballI impI) (rule bluetooth_mitm_findings)
  have b5: "(\<forall>d\<in>set bts. \<forall>e\<in>set mitmPatterns. \<forall>e'\<in>set mitmPatterns.
       Contains (lower (Name d)) (fst e) \<and> Contains (lower (Name d)) (fst e') \<longrightarrow> e = e') \<longrightarrow>
      untimed (DetectBluetoothAttacks lower order now bts) =
        untimed (DetectBluetoothAttacks lower order' now' bts)"
    unfolding untimed_DetectBluetoothAttacks
    by (intro impI) (rule bluetooth_single_pattern)
  have n1: "snd (DetectNetworkAttacks hn wn order) =
     (case LookPath hn wn ''nmap'' of
        None \<Rightarrow> wn
      | Some path \<Rightarrow>
          snd (Exec hn wn CombinedOutput
                 [''nmap'', ''-p'', ''21,23,3389,445'', ''--open'', ''192.168.1.0/24'']))"
    by (rule network_runs_nmap)
  have n2: "(LookPath hn wn ''nmap'' = None) = (LookPath hn' wn' ''nmap'' = None) \<and>
    fst (Exec hn wn CombinedOutput
           [''nmap'', ''-p'', ''21,23,3389,445'', ''--open'', ''192.168.1.0/24'']) =
    fst (Exec hn' wn' CombinedOutput
           [''nmap'', ''-p'', ''21,23,3389,445'', ''--open'', ''192.168.1.0/24'']) \<longrightarrow>
      untimed (fst (DetectNetworkAttacks hn wn order)) =
        untimed (fst (DetectNetworkAttacks hn' wn' order)) \<and>
      mset (untimed (fst (DetectNetworkAttacks hn wn order))) =
        mset (untimed (fst (DetectNetworkAttacks hn' wn' order')))"
  proof (intro impI conjI)
    assume same: "(LookPath hn wn ''nmap'' = None) = (LookPath hn' wn' ''nmap'' = None) \<and>
      fst (Exec hn wn CombinedOutput
           [''nmap'', ''-p'', ''21,23,3389,445'', ''--open'', ''192.168.1.0/24'']) =
      fst (Exec hn' wn' CombinedOutput
           [''nmap'', ''-p'', ''21,23,3389,445'', ''--open'', ''192.168.1.0/24''])"
    show "untimed (fst (DetectNetworkAttacks hn wn order)) =
        untimed (fst (DetectNetworkAttacks hn' wn' order))"
      unfolding untimed_def strip_network using same by (auto split: option.splits)
    show "mset (untimed (fst (DetectNetworkAttacks hn wn order))) =
        mset (untimed (fst (DetectNetworkAttacks hn' wn' order')))"
      unfolding untimed_def network_findings using same by (auto split: option.splits)
  qed
  from p1 p2 p3 p4 w1 w2 w3 w4 b1 b2 b3 b4 b5 n1 n2 show ?thesis
    by (intro conjI)
qed

text \<open>
  C5 (amended) at concrete inputs: a Bluetooth sample in which no name contains two
  patterns gives the same findings under two iteration orders and at two times; its
  BLUETOOTH_MITM finding is the one of the device Office-Proxy and the pattern proxy;
  and two runs of the network heuristic at different times and with different iteration
  orders, on a host whose nmap answers the same, give the same findings.
\<close>

theorem C5_heuristics_determinism_witness:
  "untimed (DetectBluetoothAttacks ToLowerASCII (\<lambda>i k. 0) 3
      [\<lparr>Address = ''AA:BB'', Name = ''Office-Proxy''\<rparr>,
       \<lparr>Address = ''CC:DD'', Name = ''Headset''\<rparr>]) =
   untimed (DetectBluetoothAttacks ToLowerASCII (\<lambda>i k. length k) 9
      [\<lparr>Address = ''AA:BB'', Name = ''Office-Proxy''\<rparr>,
       \<lparr>Address = ''CC:DD'', Name = ''Headset''\<rparr>]) \<and>
   (\<exists>d\<in>set [\<lparr>Address = ''AA:BB'', Name = ''Office-Proxy''\<rparr>,
             \<lparr>Address = ''CC:DD'', Name = ''Headset''\<rparr>].
      \<exists>e\<in>set mitmPatterns.
        Contains (ToLowerASCII (Name d)) (fst e) \<and>
        \<lparr>Type = ''BLUETOOTH_MITM'', Severity = ''High'',
         Description =
           ''Potential Man-in-the-Middle device: Office-Proxy (AA:BB) - appears to be proxy'',
         Target = ''AA:BB'', Timestamp = 3\<rparr> =
        \<lparr>Type = ''BLUETOOTH_MITM'', Severity = ''High'',
         Description = ''Potential Man-in-the-Middle device: '' @ Name d @ '' ('' @
           Address d @ '') - appears to be '' @ snd e,
         Target = Address d, Timestamp = 3\<rparr>) \<and>
   mset (untimed (fst (DetectNetworkAttacks host_nmap 0 (\<lambda>n k. 0)))) =
     mset (untimed (fst (DetectNetworkAttacks host_nmap 7 (\<lambda>n k. length k))))"
proof -
  let ?bts = "[\<lparr>Address = ''AA:BB'', Name = ''Office-Proxy''\<rparr>,
               \<lparr>Address = ''CC:DD'', Name = ''Headset''\<rparr>]"
  let ?a = "\<lparr>Type = ''BLUETOOTH_MITM'', Severity = ''High'',
         Description =
           ''Potential Man-in-the-Middle device: Office-Proxy (AA:BB) - appears to be proxy'',
         Target = ''AA:BB'', Timestamp = 3\<rparr>"
  note inst = C5_heuristics_determinism [where lower = ToLowerASCII and order = "\<lambda>i k. 0"
      and order' = "\<lambda>i k. length k" and now = 3 and now' = 9 and bts = ?bts
      and hn = host_nmap and wn = 0 and hn' = host_nmap and wn' = 7]
  have one: "\<forall>d\<in>set ?bts. \<forall>e\<in>set mitmPatterns. \<forall>e'\<in>set mitmPatterns.
       Contains (ToLowerASCII (Name d)) (fst e) \<and> Contains (ToLowerASCII (Name d)) (fst e')
       \<longrightarrow> e = e'"
    by (simp add: mitmPatterns_def ToLowerASCII_def)
  have mem: "?a \<in> set (DetectBluetoothAttacks ToLowerASCII (\<lambda>i k. 0) 3 ?bts)"
    by (simp add: DetectBluetoothAttacks_def massScanning_def spoofing_def mitm_def
        suspiciousNames_def mitmPatterns_def ToLowerASCII_def)
  have ty: "Type ?a = ''BLUETOOTH_MITM''" by simp
  have same: "(LookPath host_nmap 0 ''nmap'' = None) = (LookPath host_nmap 7 ''nmap'' = None) \<and>
    fst (Exec host_nmap 0 CombinedOutput
           [''nmap'', ''-p'', ''21,23,3389,445'', ''--open'', ''192.168.1.0/24'']) =
    fst (Exec host_nmap 7 CombinedOutput
           [''nmap'', ''-p'', ''21,23,3389,445'', ''--open'', ''192.168.1.0/24''])"
    by (simp add: host_nmap_def)
  note rest = inst [THEN conjunct2, THEN conjunct2, THEN conjunct2, THEN conjunct2,
      THEN conjunct2, THEN conjunct2, THEN conjunct2, THEN conjunct2, THEN conjunct2,
      THEN conjunct2, THEN conjunct2]
  have c1: "untimed (DetectBluetoothAttacks ToLowerASCII (\<lambda>i k. 0) 3 ?bts) =
            untimed (DetectBluetoothAttacks ToLowerASCII (\<lambda>i k. length k) 9 ?bts)"
    by (rule rest [THEN conjunct2, THEN conjunct1, THEN mp, OF one])
  have c2: "\<exists>d\<in>set ?bts. \<exists>e\<in>set mitmPatterns.
        Contains (ToLowerASCII (Name d)) (fst e) \<and>
        ?a = \<lparr>Type = ''BLUETOOTH_MITM'', Severity = ''High'',
         Description = ''Potential Man-in-the-Middle device: '' @ Name d @ '' ('' @
           Address d @ '') - appears to be '' @ snd e,
         Target = Address d, Timestamp = 3\<rparr>"
    by (rule rest [THEN conjunct1, THEN bspec, OF mem, THEN mp, OF ty])
  have c3: "mset (untimed (fst (DetectNetworkAttacks host_nmap 0 (\<lambda>n k. 0)))) =
     mset (untimed (fst (DetectNetworkAttacks host_nmap 7 (\<lambda>n k. length k))))"
    by (rule rest [THEN conjunct2, THEN conjunct2, THEN conjunct2, THEN mp, OF same,
          THEN conjunct2])
  from c1 c2 c3 show ?thesis by (intro conjI)
qed

section \<open>The samplers: the network summary line, the Wi-Fi log and the Bluetooth samples\<close>

lemma ping_lookup: "SplitN ''rtt min/avg/max/mdev'' ''='' 2 = [''rtt min/avg/max/mdev'']"
  by (simp add: SplitN_def)

text \<open>
  C9 fails on the code for a summary-marker line without the separator: when ping
  succeeds and its output is the line \<open>rtt min/avg/max/mdev\<close> with no \<open>=\<close> in it, the
  sampler does not complete with the latency "Unknown"; it panics, indexing element 1 of
  the one-element result of \<open>strings.SplitN\<close>.
\<close>

theorem C9_ping_marker_without_separator:
  "MonitorNetwork (host_ping ''rtt min/avg/max/mdev'') 0 globals0 = Inl (IndexOutOfRange 1 1)"
  by (simp add: MonitorNetwork_def host_ping_def Split_def ping_lookup)

lemma network_offline:
  "Exec h w Output [''ping'', ''-c'', ''3'', ''-i'', ''0.2'', ''8.8.8.8''] = ((out, Some e), w1) \<Longrightarrow>
   \<exists>g1. MonitorNetwork h w g = Inr (g1, w1) \<and>
        NetworkInfoVar g1 = \<lparr>Online = False, AvgLatency = ''N/A''\<rparr>"
  by (simp add: MonitorNetwork_def initStatus_def updateStatus_def Let_def
        split: option.splits)

lemma network_example:
  "map_sum id (NetworkInfoVar \<circ> fst)
     (MonitorNetwork
        (host_ping (''3 packets transmitted, 3 received'' @ [CHR 0x0A] @
                    ''rtt min/avg/max/mdev = 10.1/12.3/15.0/1.2 ms'' @ [CHR 0x0A]))
        0 globals0)
   = Inr \<lparr>Online = True, AvgLatency = ''12.3ms''\<rparr>"
  by (simp add: MonitorNetwork_def host_ping_def Split_def SplitN_def rttAvg_def
        TrimSpace_def spaceRunes_def initStatus_def updateStatus_def globals0_def)

lemma network_unknown:
  "map_sum id (NetworkInfoVar \<circ> fst)
     (MonitorNetwork (host_ping ''3 packets transmitted, 3 received'') 0 globals0)
   = Inr \<lparr>Online = True, AvgLatency = ''Unknown''\<rparr>"
  by (simp add: MonitorNetwork_def host_ping_def Split_def SplitN_def rttAvg_def
        TrimSpace_def spaceRunes_def initStatus_def updateStatus_def globals0_def)

lemma trimLog_length: "length (LogEntries (trimLog st)) \<le> 10"
  by (simp add: trimLog_def)

lemma MonitorWifi_no_airodump:
  "LookPath h w ''airodump-ng'' = None \<Longrightarrow>
   \<exists>g1 st1. MonitorWifi h w g = Inr (g1, w) \<and> ServiceStatuses g1 ''wifi'' = Some st1 \<and>
     length (LogEntries st1) =
       Suc (case ServiceStatuses g ''wifi'' of None \<Rightarrow> 0 | Some st \<Rightarrow> length (LogEntries st))"
  by (simp add: MonitorWifi_def initStatus_def updateStatus_def setStatus_def appendLog_def
        Let_def split: option.splits)

lemma MonitorWifi_passes_no_airodump:
  "(\<And>w. LookPath h w ''airodump-ng'' = None) \<Longrightarrow>
   \<exists>g1. MonitorWifi_passes n h w g = Inr (g1, w) \<and>
     (case ServiceStatuses g1 ''wifi'' of None \<Rightarrow> 0 | Some st \<Rightarrow> length (LogEntries st)) =
       (case ServiceStatuses g ''wifi'' of None \<Rightarrow> 0 | Some st \<Rightarrow> length (LogEntries st)) + n"
proof (induction n arbitrary: g)
  case 0
  show ?case by simp
next
  case (Suc n)
  from MonitorWifi_no_airodump [OF Suc.prems, of w g]
  obtain g1 st1 where step: "MonitorWifi h w g = Inr (g1, w)"
      "ServiceStatuses g1 ''wifi'' = Some st1"
      "length (LogEntries st1) =
         Suc (case ServiceStatuses g ''wifi'' of None \<Rightarrow> 0 | Some st \<Rightarrow> length (LogEntries st))"
    by blast
  from Suc.IH [OF Suc.prems, of g1]
  obtain g2 where rest: "MonitorWifi_passes n h w g1 = Inr (g2, w)"
      "(case ServiceStatuses g2 ''wifi'' of None \<Rightarrow> 0 | Some st \<Rightarrow> length (LogEntries st)) =
       (case ServiceStatuses g1 ''wifi'' of None \<Rightarrow> 0 | Some st \<Rightarrow> length (LogEntries st)) + n"
    by blast
  from step rest show ?case by simp
qed

text \<open>
  C4 fails on the code for the Wi-Fi sampler: its own critical sections append to the
  log and never trim it. After eleven passes on a host without airodump-ng the log of
  the Wi-Fi domain holds eleven entries, the oldest included.
\<close>

theorem C4_wifi_log_grows:
  "\<exists>g st. MonitorWifi_passes 11 host_bare 0 globals0 = Inr (g, 0) \<and>
          ServiceStatuses g ''wifi'' = Some st \<and> length (LogEntries st) = 11"
proof -
  have bare: "\<And>w. LookPath host_bare w ''airodump-ng'' = None"
    by (simp add: host_bare_def)
  from MonitorWifi_passes_no_airodump [OF bare, of 11 0 globals0]
  obtain g where g: "MonitorWifi_passes 11 host_bare 0 globals0 = Inr (g, 0)"
      "(case ServiceStatuses g ''wifi'' of None \<Rightarrow> 0 | Some st \<Rightarrow> length (LogEntries st)) =
       (case ServiceStatuses globals0 ''wifi'' of None \<Rightarrow> 0 | Some st \<Rightarrow> length (LogEntries st)) + 11"
    by blast
  from g(2) have "(case ServiceStatuses g ''wifi'' of None \<Rightarrow> 0 | Some st \<Rightarrow> length (LogEntries st)) = 11"
    by (simp add: globals0_def)
  then obtain st where "ServiceStatuses g ''wifi'' = Some st" "length (LogEntries st) = 11"
    by (cases "ServiceStatuses g ''wifi''") simp_all
  with g(1) show ?thesis by blast
qed

text \<open>
  The last critical section leaves the devices of all lines, in order.
\<close>

lemma appendEach_last: "last (cur # appendEach cur ds) = cur @ ds"
  by (induction ds arbitrary: cur) simp_all

lemma BtDevices_sections_last:
  "last (BtDevices_sections output) = concat (map btLineDevices (Split output [CHR 0x0A]))"
  unfolding BtDevices_sections_def by (simp only: appendEach_last append_Nil)

lemma BleDevices_sections_last:
  "last (BleDevices_sections output) = concat (map bleLineDevices (Split output [CHR 0x0A]))"
  unfolding BleDevices_sections_def by (simp only: appendEach_last append_Nil)

text \<open>
  C3 fails on the code for the Bluetooth and BLE domains: the sample is replaced in
  several critical sections, not one. For a scan output that lists two devices the
  variable passes, with the lock released in between, through the empty slice and
  through the slice holding only the first device before it holds both; a reader that
  takes the read lock between two sections sees one of the partial values.
\<close>

theorem C3_bluetooth_replacement_in_steps:
  "BtDevices_sections (''AA:BB:CC:DD:EE:01'' @ [CHR 0x09] @ ''Phone'' @ [CHR 0x0A] @
                       ''AA:BB:CC:DD:EE:02'' @ [CHR 0x09] @ ''Watch'')
     = [[],
        [\<lparr>Address = ''AA:BB:CC:DD:EE:01'', Name = ''Phone''\<rparr>],
        [\<lparr>Address = ''AA:BB:CC:DD:EE:01'', Name = ''Phone''\<rparr>,
         \<lparr>Address = ''AA:BB:CC:DD:EE:02'', Name = ''Watch''\<rparr>]] \<and>
   BleDevices_sections (''01:23: Apple tag'' @ [CHR 0x0A] @ ''45:67: beacon'')
     = [[],
        [\<lparr>Address_ble = ''01:23:'', Data = ''Apple tag (Potential AirTag)'', RSSI = 0\<rparr>],
        [\<lparr>Address_ble = ''01:23:'', Data = ''Apple tag (Potential AirTag)'', RSSI = 0\<rparr>,
         \<lparr>Address_ble = ''45:67:'', Data = ''beacon'', RSSI = 0\<rparr>]]"
  by (simp add: BtDevices_sections_def BleDevices_sections_def btLineDevices_def
        bleLineDevices_def Split_def Fields_def TrimSpace_def spaceRunes_def HasSuffix_def)

lemma updateStatus_trim:
  "updateStatus key (trimLog \<circ> f) g = Inr g1 \<Longrightarrow>
   \<exists>st. ServiceStatuses g1 key = Some st \<and> length (LogEntries st) \<le> 10"
  by (auto simp: updateStatus_def trimLog_length split: option.splits)

lemma network_log_bounded:
  assumes "MonitorNetwork h w g = Inr (g1, w1)"
  shows "\<exists>st. ServiceStatuses g1 ''network'' = Some st \<and> length (LogEntries st) \<le> 10"
proof -
  let ?g = "initStatus h w ''network'' ''Network Monitoring'' g"
  from assms obtain f g2 info where
    upd: "updateStatus ''network'' (trimLog \<circ> f) ?g = Inr g2" and
    g1: "g1 = g2\<lparr>NetworkInfoVar := info\<rparr>"
    by (auto simp: MonitorNetwork_def Let_def comp_assoc
             split: prod.splits option.splits sum.splits)
  from updateStatus_trim [OF upd] g1 show ?thesis by simp
qed

lemma sections_start_empty:
  "hd (BtDevices_sections output) = [] \<and> hd (BleDevices_sections output) = []"
  by (simp add: BtDevices_sections_def BleDevices_sections_def)

end
